theory Spec2Isabelle
  imports Complex_Main
begin

section \<open>Numbers, vectors and bounding boxes\<close>

text \<open>
  JavaScript numbers are idealised as reals. The only non-finite results the script of
  \<^verbatim>\<open>src/main.js\<close> can produce come from its two divisions (the viewport aspect ratio and
  the load progress), whose operands are non-negative integers: a positive number divided by
  zero is \<^verbatim>\<open>Infinity\<close>, zero divided by zero is \<^verbatim>\<open>NaN\<close>.
\<close>

datatype jsnum = JsNum real | JsInfinity | JsNaN

definition js_div :: "nat \<Rightarrow> nat \<Rightarrow> jsnum" where
  "js_div a b =
     (if b = 0 then (if a = 0 then JsNaN else JsInfinity) else JsNum (real a / real b))"

definition js_times100 :: "jsnum \<Rightarrow> jsnum" where
  "js_times100 v = (case v of JsNum r \<Rightarrow> JsNum (r * 100) | JsInfinity \<Rightarrow> JsInfinity | JsNaN \<Rightarrow> JsNaN)"

datatype vec3 = Vector3 (vx: real) (vy: real) (vz: real)

definition vadd :: "vec3 \<Rightarrow> vec3 \<Rightarrow> vec3" where
  "vadd a b = Vector3 (vx a + vx b) (vy a + vy b) (vz a + vz b)"

definition vsub :: "vec3 \<Rightarrow> vec3 \<Rightarrow> vec3" where
  "vsub a b = Vector3 (vx a - vx b) (vy a - vy b) (vz a - vz b)"

definition multiplyScalar :: "vec3 \<Rightarrow> real \<Rightarrow> vec3" where
  "multiplyScalar a k = Vector3 (vx a * k) (vy a * k) (vz a * k)"

definition vmin :: "vec3 \<Rightarrow> vec3 \<Rightarrow> vec3" where
  "vmin a b = Vector3 (min (vx a) (vx b)) (min (vy a) (vy b)) (min (vz a) (vz b))"

definition vmax :: "vec3 \<Rightarrow> vec3 \<Rightarrow> vec3" where
  "vmax a b = Vector3 (max (vx a) (vx b)) (max (vy a) (vy b)) (max (vz a) (vz b))"

text \<open>
  \<^verbatim>\<open>THREE.Box3\<close>, the axis-aligned bounding box of the 3D library. A new box is empty;
  \<^verbatim>\<open>expandByPoint\<close> grows it to contain a point; \<^verbatim>\<open>getCenter\<close> is the midpoint of the
  two corners, and the zero vector for the empty box.
\<close>

datatype box3 = EmptyBox | Box vec3 vec3

definition expandByPoint :: "box3 \<Rightarrow> vec3 \<Rightarrow> box3" where
  "expandByPoint b p = (case b of EmptyBox \<Rightarrow> Box p p | Box lo hi \<Rightarrow> Box (vmin lo p) (vmax hi p))"

definition getCenter :: "box3 \<Rightarrow> vec3" where
  "getCenter b =
     (case b of EmptyBox \<Rightarrow> Vector3 0 0 0 | Box lo hi \<Rightarrow> multiplyScalar (vadd lo hi) 0.5)"


section \<open>3D objects\<close>

text \<open>
  The loaded asset (\<^verbatim>\<open>gltf.scene\<close>) is an object with a position, a rotation (Euler angles
  about x, y and z, applied in the library's default order XYZ) and the vertices it draws, given
  in its own frame. Its scale is 1 (line 62 is commented out) and it has no parent but the
  scene, which is never moved, so its world matrix is the rotation followed by the translation.
\<close>

record asset =
  position :: vec3
  rotation :: vec3
  vertices :: "vec3 list"

record gltf =
  scene :: asset

text \<open>The rotation matrix of the Euler angles \<open>e\<close>, applied to the vector \<open>v\<close>.\<close>

definition applyEuler :: "vec3 \<Rightarrow> vec3 \<Rightarrow> vec3" where
  "applyEuler e v =
     (let a = cos (vx e); b = sin (vx e);
          c = cos (vy e); d = sin (vy e);
          e' = cos (vz e); f = sin (vz e)
      in Vector3
           (c * e' * vx v - c * f * vy v + d * vz v)
           ((a * f + b * e' * d) * vx v + (a * e' - b * f * d) * vy v - b * c * vz v)
           ((b * f - a * e' * d) * vx v + (b * e' + a * f * d) * vy v + a * c * vz v))"

definition applyMatrix4 :: "asset \<Rightarrow> vec3 \<Rightarrow> vec3" where
  "applyMatrix4 ob v = vadd (position ob) (applyEuler (rotation ob) v)"

text \<open>
  \<^verbatim>\<open>Box3.setFromObject\<close> starts from the empty box and expands it by every vertex of the
  object, taken to world space by the object's world matrix.
\<close>

definition setFromObject :: "asset \<Rightarrow> box3" where
  "setFromObject ob = foldl expandByPoint EmptyBox (map (applyMatrix4 ob) (vertices ob))"

datatype geometry = IcosahedronGeometry real nat

record material =
  color :: nat
  roughness :: real
  metalness :: real
  wireframe :: bool

record mesh =
  mesh_position :: vec3
  mesh_rotation :: vec3
  geometry :: geometry
  material :: material

datatype object3d = Group asset | Mesh mesh

definition object_position :: "object3d \<Rightarrow> vec3" where
  "object_position ob = (case ob of Group g \<Rightarrow> position g | Mesh m \<Rightarrow> mesh_position m)"

definition set_position_y :: "real \<Rightarrow> object3d \<Rightarrow> object3d" where
  "set_position_y v ob =
     (case ob of
        Group g \<Rightarrow> Group (g\<lparr>position := Vector3 (vx (position g)) v (vz (position g))\<rparr>)
      | Mesh m \<Rightarrow> Mesh (m\<lparr>mesh_position := Vector3 (vx (mesh_position m)) v (vz (mesh_position m))\<rparr>))"

definition object_rotation :: "object3d \<Rightarrow> vec3" where
  "object_rotation ob = (case ob of Group g \<Rightarrow> rotation g | Mesh m \<Rightarrow> mesh_rotation m)"

definition set_rotation :: "vec3 \<Rightarrow> object3d \<Rightarrow> object3d" where
  "set_rotation r ob =
     (case ob of Group g \<Rightarrow> Group (g\<lparr>rotation := r\<rparr>) | Mesh m \<Rightarrow> Mesh (m\<lparr>mesh_rotation := r\<rparr>))"

type_synonym addr = nat


section \<open>Animation library values\<close>

type_synonym element = nat

datatype target = Selector string | Element element | RotationOf addr

datatype tween_value = N real | S string

record scroll_trigger =
  st_trigger :: target
  st_start :: string
  st_end :: "string option"
  st_scrub :: "real option"
  st_pin :: bool

datatype tween_method = To | From

record tween =
  tw_method :: tween_method
  tw_target :: target
  vars :: "(string \<times> tween_value) list"
  scrollTrigger :: "scroll_trigger option"

text \<open>
  A timeline holds its labels and its children, each child with its start time. A tween placed
  at a label that does not exist yet creates the label at the current end of the timeline; a
  tween without a \<^verbatim>\<open>duration\<close> lasts the library's default of half a time unit.
\<close>

record timeline =
  tl_scrollTrigger :: "scroll_trigger option"
  labels :: "(string \<times> real) list"
  children :: "(real \<times> tween) list"

definition tween_duration :: "tween \<Rightarrow> real" where
  "tween_duration tw = (case map_of (vars tw) ''duration'' of Some (N d) \<Rightarrow> d | _ \<Rightarrow> 0.5)"

definition timeline_duration :: "timeline \<Rightarrow> real" where
  "timeline_duration t = foldr (\<lambda>c m. max (fst c + tween_duration (snd c)) m) (children t) 0"

definition timeline_to ::
  "target \<Rightarrow> (string \<times> tween_value) list \<Rightarrow> string \<Rightarrow> timeline \<Rightarrow> timeline" where
  "timeline_to tgt vs label t =
     (let pos = (case map_of (labels t) label of Some s \<Rightarrow> s | None \<Rightarrow> timeline_duration t)
      in t\<lparr>labels := (if map_of (labels t) label = None then labels t @ [(label, pos)] else labels t),
           children := children t @
             [(pos, \<lparr>tw_method = To, tw_target = tgt, vars = vs, scrollTrigger = None\<rparr>)]\<rparr>)"

datatype css_value = NumUnit real string


section \<open>Page state\<close>

datatype light =
    AmbientLight nat real
  | SpotLight nat real vec3 real real
  | PointLight nat real vec3
  | DirectionalLight nat real vec3

datatype scene_node = CameraNode | LightNode light | ObjectNode addr

record camera =
  fov :: real
  aspect :: jsnum
  near :: real
  far :: real
  camera_z :: real
  projection :: "real \<times> jsnum \<times> real \<times> real"

definition updateProjectionMatrix :: "camera \<Rightarrow> camera" where
  "updateProjectionMatrix c = c\<lparr>projection := (fov c, aspect c, near c, far c)\<rparr>"

definition PerspectiveCamera :: "real \<Rightarrow> jsnum \<Rightarrow> real \<Rightarrow> real \<Rightarrow> camera" where
  "PerspectiveCamera f a n fr =
     updateProjectionMatrix
       \<lparr>fov = f, aspect = a, near = n, far = fr, camera_z = 0, projection = (f, a, n, fr)\<rparr>"

record frame =
  drawn :: "(addr \<times> vec3) list"
  drawn_projection :: "real \<times> jsnum \<times> real \<times> real"

record renderer =
  alpha :: bool
  antialias :: bool
  r_size :: "nat \<times> nat"
  pixelRatio :: real
  frames :: "frame list"

datatype callback = Animate | RotateModel

datatype log_entry = ProgressLog jsnum | ErrorLog string

datatype js_error = TypeError

record window =
  innerWidth :: nat
  innerHeight :: nat
  devicePixelRatio :: real

text \<open>
  What the script finds in the document: the elements \<^verbatim>\<open>.horizontal-wrapper\<close> and
  \<^verbatim>\<open>.horizontal-section\<close>, if any, the \<^verbatim>\<open>.h-card\<close> elements, and the width of the viewport
  as media queries see it, in CSS pixels; that width need not be a whole number.
\<close>

record document =
  horizontal_wrapper :: "element option"
  horizontal_section :: "element option"
  h_cards :: "element list"
  media_width :: real

text \<open>
  The state of the page. \<^verbatim>\<open>objs\<close> is the store of 3D objects, \<^verbatim>\<open>model\<close> the shared
  reference into it (\<^verbatim>\<open>None\<close> is \<^verbatim>\<open>null\<close>); \<^verbatim>\<open>model_writes\<close> counts the assignments to
  the variable \<^verbatim>\<open>model\<close> made after its declaration; \<^verbatim>\<open>raf_queue\<close> holds the callbacks
  passed to \<^verbatim>\<open>requestAnimationFrame\<close> that wait for the next display frame;
  \<^verbatim>\<open>desktop_tweens\<close> and \<^verbatim>\<open>mobile_tweens\<close> hold what the function of each media query has
  created while the query matches, and \<^verbatim>\<open>None\<close> while it does not.
\<close>

record page =
  sizes_width :: nat
  sizes_height :: nat
  camera :: camera
  renderer :: renderer
  scene_children :: "scene_node list"
  objs :: "addr \<Rightarrow> object3d option"
  next_addr :: addr
  model :: "addr option"
  model_writes :: nat
  raf_queue :: "callback list"
  tweens :: "tween list"
  timelines :: "timeline list"
  horizontalSection :: "element option"
  wrapper :: "element option"
  desktop_tweens :: "tween list option"
  mobile_tweens :: "tween list option"
  console :: "log_entry list"
  styles :: "element \<Rightarrow> string \<Rightarrow> css_value option"
  mousemove_listeners :: "element list"


section \<open>The asset loader's callbacks\<close>

definition idle_rotation :: "addr \<Rightarrow> tween" where
  "idle_rotation a =
     \<lparr>tw_method = To, tw_target = RotationOf a,
      vars = [(''y'', N (pi * 2)), (''duration'', N 20), (''repeat'', N (- 1)), (''ease'', S ''none'')],
      scrollTrigger = None\<rparr>"

text \<open>The success callback of \<^verbatim>\<open>loader.load\<close>; the asset is a new object of the store.\<close>

definition on_load :: "gltf \<Rightarrow> page \<Rightarrow> page" where
  "on_load g st =
     (let a = next_addr st;
          box = setFromObject (scene g);
          center = getCenter box;
          centred = (scene g)\<lparr>position := vsub (position (scene g)) center\<rparr>
      in st\<lparr>objs := (objs st)(a \<mapsto> Group centred),
            next_addr := Suc a,
            model := Some a,
            model_writes := Suc (model_writes st),
            scene_children := scene_children st @ [ObjectNode a],
            tweens := tweens st @ [idle_rotation a]\<rparr>)"

text \<open>The progress callback only logs.\<close>

definition on_progress :: "nat \<Rightarrow> nat \<Rightarrow> page \<Rightarrow> page" where
  "on_progress loaded tot st =
     st\<lparr>console := console st @ [ProgressLog (js_times100 (js_div loaded tot))]\<rparr>"

definition fallback_mesh :: mesh where
  "fallback_mesh =
     \<lparr>mesh_position = Vector3 0 0 0,
      mesh_rotation = Vector3 0 0 0,
      geometry = IcosahedronGeometry 1.5 0,
      material = \<lparr>color = 0x111111, roughness = 0.3, metalness = 0.8, wireframe = True\<rparr>\<rparr>"

text \<open>The error callback.\<close>

definition on_error :: "string \<Rightarrow> page \<Rightarrow> page" where
  "on_error err st =
     (let a = next_addr st
      in st\<lparr>console := console st @ [ErrorLog err],
            objs := (objs st)(a \<mapsto> Mesh fallback_mesh),
            next_addr := Suc a,
            scene_children := scene_children st @ [ObjectNode a],
            model := Some a,
            model_writes := Suc (model_writes st)\<rparr>)"


section \<open>Renderer and resize handler\<close>

text \<open>
  A new renderer has the size of a canvas that was never sized, 300 by 150, and pixel ratio 1;
  the script sizes it at once.
\<close>

definition WebGLRenderer :: "bool \<Rightarrow> bool \<Rightarrow> renderer" where
  "WebGLRenderer al aa =
     \<lparr>alpha = al, antialias = aa, r_size = (300, 150), pixelRatio = 1, frames = []\<rparr>"

definition setSize :: "nat \<Rightarrow> nat \<Rightarrow> renderer \<Rightarrow> renderer" where
  "setSize w h r = r\<lparr>r_size := (w, h)\<rparr>"

definition setPixelRatio :: "real \<Rightarrow> renderer \<Rightarrow> renderer" where
  "setPixelRatio v r = r\<lparr>pixelRatio := v\<rparr>"

definition resize :: "window \<Rightarrow> page \<Rightarrow> page" where
  "resize win st =
     (let w = innerWidth win; h = innerHeight win
      in st\<lparr>sizes_width := w,
            sizes_height := h,
            camera := updateProjectionMatrix ((camera st)\<lparr>aspect := js_div w h\<rparr>),
            renderer := setPixelRatio (min (devicePixelRatio win) 2) (setSize w h (renderer st))\<rparr>)"


section \<open>Animation loop\<close>

definition float_offset :: "real \<Rightarrow> real" where
  "float_offset now = sin (now * 0.001) * 0.1"

definition draw_node :: "(addr \<Rightarrow> object3d option) \<Rightarrow> scene_node \<Rightarrow> (addr \<times> vec3) list" where
  "draw_node store n =
     (case n of
        ObjectNode a \<Rightarrow> (case store a of Some ob \<Rightarrow> [(a, object_position ob)] | None \<Rightarrow> [])
      | _ \<Rightarrow> [])"

text \<open>What \<^verbatim>\<open>renderer.render(scene, camera)\<close> draws: the objects of the scene, where they are.\<close>

definition snapshot :: "page \<Rightarrow> frame" where
  "snapshot st =
     \<lparr>drawn = concat (map (draw_node (objs st)) (scene_children st)),
      drawn_projection = projection (camera st)\<rparr>"

definition render :: "page \<Rightarrow> page" where
  "render st = st\<lparr>renderer := (renderer st)\<lparr>frames := frames (renderer st) @ [snapshot st]\<rparr>\<rparr>"

text \<open>
  \<^verbatim>\<open>animate\<close>: schedule the next tick, move the model if there is one, render. Reading a
  property of an object that is not there is a \<^verbatim>\<open>TypeError\<close>.
\<close>

definition animate :: "int \<Rightarrow> page \<Rightarrow> js_error + page" where
  "animate now st =
     (let st1 = st\<lparr>raf_queue := raf_queue st @ [Animate]\<rparr>
      in case model st1 of
           None \<Rightarrow> Inr (render st1)
         | Some a \<Rightarrow>
             (case objs st1 a of
                None \<Rightarrow> Inl TypeError
              | Some ob \<Rightarrow>
                  Inr (render (st1\<lparr>objs := (objs st1)(a \<mapsto> set_position_y (float_offset (real_of_int now)) ob)\<rparr>))))"


section \<open>Scroll animations\<close>

definition hero_trigger :: scroll_trigger where
  "hero_trigger =
     \<lparr>st_trigger = Selector ''.hero'', st_start = ''top top'', st_end = Some ''+=150%'',
      st_scrub = Some 1, st_pin = True\<rparr>"

definition hero_timeline :: timeline where
  "hero_timeline =
     timeline_to (Selector ''.hero-info'') [(''y'', N 100), (''opacity'', N 0), (''duration'', N 0.5)] ''start''
    (timeline_to (Selector ''.line-2'')
       [(''scale'', N 15), (''opacity'', N 0), (''duration'', N 1.5), (''ease'', S ''power2.inOut'')] ''start''
    (timeline_to (Selector ''.line-3'') [(''x'', S ''150%''), (''opacity'', N 0), (''duration'', N 1)] ''start''
    (timeline_to (Selector ''.line-1'') [(''x'', S ''-150%''), (''opacity'', N 0), (''duration'', N 1)] ''start''
       \<lparr>tl_scrollTrigger = Some hero_trigger, labels = [], children = []\<rparr>)))"

definition scroll_rotation :: "addr \<Rightarrow> tween" where
  "scroll_rotation a =
     \<lparr>tw_method = To, tw_target = RotationOf a,
      vars = [(''z'', N (pi * 0.5))],
      scrollTrigger = Some \<lparr>st_trigger = Selector ''.hero'', st_start = ''top top'',
                            st_end = Some ''+=150%'', st_scrub = Some 1, st_pin = False\<rparr>\<rparr>"

definition rotateModel :: "page \<Rightarrow> page" where
  "rotateModel st =
     (case model st of
        Some a \<Rightarrow> st\<lparr>tweens := tweens st @ [scroll_rotation a]\<rparr>
      | None \<Rightarrow> st\<lparr>raf_queue := raf_queue st @ [RotateModel]\<rparr>)"

definition reveal_info :: tween where
  "reveal_info =
     \<lparr>tw_method = To, tw_target = Selector ''.hero-info'',
      vars = [(''opacity'', N 1), (''y'', N 0), (''duration'', N 1), (''delay'', N 0.5)],
      scrollTrigger = None\<rparr>"


section \<open>Horizontal section\<close>

definition horizontal_scroll :: "element \<Rightarrow> element \<Rightarrow> tween" where
  "horizontal_scroll w hs =
     \<lparr>tw_method = To, tw_target = Element w,
      vars = [(''x'', S ''-250vw''), (''ease'', S ''none'')],
      scrollTrigger = Some \<lparr>st_trigger = Element hs, st_start = ''top top'',
                            st_end = Some ''+=3000'', st_scrub = Some 1, st_pin = True\<rparr>\<rparr>"

definition card_reveal :: "element \<Rightarrow> tween" where
  "card_reveal el =
     \<lparr>tw_method = From, tw_target = Element el,
      vars = [(''y'', N 50), (''opacity'', N 0), (''duration'', N 0.8)],
      scrollTrigger = Some \<lparr>st_trigger = Element el, st_start = ''top 85%'',
                            st_end = None, st_scrub = None, st_pin = False\<rparr>\<rparr>"

definition desktop :: "page \<Rightarrow> tween list" where
  "desktop st =
     (case wrapper st of
        None \<Rightarrow> []
      | Some w \<Rightarrow> (case horizontalSection st of None \<Rightarrow> [] | Some hs \<Rightarrow> [horizontal_scroll w hs]))"

definition mobile :: "element list \<Rightarrow> tween list" where
  "mobile cards = map card_reveal cards"

text \<open>
  \<^verbatim>\<open>ScrollTrigger.matchMedia\<close> keeps its two media queries, \<^verbatim>\<open>(min-width: 1024px)\<close> and
  \<^verbatim>\<open>(max-width: 1023px)\<close>, live: the function of a query runs when the query starts to match,
  and what it created is reverted when the query stops matching. \<^verbatim>\<open>matchMedia width cards\<close>
  is that evaluation at a viewport width, for the cards the document has at that moment.
\<close>

definition matchMedia :: "real \<Rightarrow> element list \<Rightarrow> page \<Rightarrow> page" where
  "matchMedia width cards st =
     st\<lparr>desktop_tweens :=
          (if 1024 \<le> width
           then (case desktop_tweens st of None \<Rightarrow> Some (desktop st) | Some ts \<Rightarrow> Some ts)
           else None),
        mobile_tweens :=
          (if width \<le> 1023
           then (case mobile_tweens st of None \<Rightarrow> Some (mobile cards) | Some ts \<Rightarrow> Some ts)
           else None)\<rparr>"


section \<open>Tweens at work\<close>

text \<open>
  When the animation library renders a tween it writes, to the properties the tween animates,
  the values it has interpolated for the current time or scroll position; the values are the
  library's, so they come with the event. Only the rotation of 3D objects is part of the page
  state.
\<close>

definition animated :: "tween \<Rightarrow> string \<Rightarrow> bool" where
  "animated tw k = (case map_of (vars tw) k of Some (N v) \<Rightarrow> True | _ \<Rightarrow> False)"

definition write_axis :: "tween \<Rightarrow> (string \<times> real) list \<Rightarrow> string \<Rightarrow> real \<Rightarrow> real" where
  "write_axis tw vals k old =
     (if animated tw k then (case map_of vals k of Some v \<Rightarrow> v | None \<Rightarrow> old) else old)"

definition render_tween :: "nat \<Rightarrow> (string \<times> real) list \<Rightarrow> page \<Rightarrow> page" where
  "render_tween i vals st =
     (if i < length (tweens st)
      then (case tw_target (tweens st ! i) of
              RotationOf a \<Rightarrow>
                (case objs st a of
                   Some ob \<Rightarrow>
                     st\<lparr>objs := (objs st)(a \<mapsto>
                          set_rotation
                            (Vector3 (write_axis (tweens st ! i) vals ''x'' (vx (object_rotation ob)))
                                     (write_axis (tweens st ! i) vals ''y'' (vy (object_rotation ob)))
                                     (write_axis (tweens st ! i) vals ''z'' (vz (object_rotation ob))))
                            ob)\<rparr>
                 | None \<Rightarrow> st)
            | _ \<Rightarrow> st)
      else st)"


section \<open>Pointer effect\<close>

record mouse_event =
  clientX :: real
  clientY :: real

record dom_rect =
  rect_left :: real
  rect_top :: real

text \<open>The value \<^verbatim>\<open>`${x}px`\<close> is the number \<open>x\<close> followed by the unit.\<close>

definition mousemove :: "element \<Rightarrow> mouse_event \<Rightarrow> dom_rect \<Rightarrow> page \<Rightarrow> page" where
  "mousemove el e rect st =
     (let x = clientX e - rect_left rect;
          y = clientY e - rect_top rect
      in st\<lparr>styles := (styles st)(el :=
              ((styles st el)(''--x'' \<mapsto> NumUnit x ''px''))(''--y'' \<mapsto> NumUnit y ''px''))\<rparr>)"


section \<open>The page as a reactive system\<close>

datatype event =
    LoadSuccess gltf
  | LoadProgress nat nat
  | LoadError string
  | Resize window
  | DisplayFrame int
  | MouseMove element mouse_event dom_rect
  | TweenRender nat "(string \<times> real) list"
  | MediaChange real "element list"

definition run_callback :: "int \<Rightarrow> callback \<Rightarrow> page \<Rightarrow> js_error + page" where
  "run_callback now cb st = (case cb of Animate \<Rightarrow> animate now st | RotateModel \<Rightarrow> Inr (rotateModel st))"

fun run_callbacks :: "int \<Rightarrow> callback list \<Rightarrow> page \<Rightarrow> js_error + page" where
  "run_callbacks now [] st = Inr st"
| "run_callbacks now (cb # cbs) st =
     (case run_callback now cb st of Inl e \<Rightarrow> Inl e | Inr st' \<Rightarrow> run_callbacks now cbs st')"

text \<open>A display frame runs the callbacks that were waiting, in the order they were queued.\<close>

definition display_frame :: "int \<Rightarrow> page \<Rightarrow> js_error + page" where
  "display_frame now st = run_callbacks now (raf_queue st) (st\<lparr>raf_queue := []\<rparr>)"

definition step :: "event \<Rightarrow> page \<Rightarrow> js_error + page" where
  "step ev st =
     (case ev of
        LoadSuccess g \<Rightarrow> Inr (on_load g st)
      | LoadProgress loaded tot \<Rightarrow> Inr (on_progress loaded tot st)
      | LoadError err \<Rightarrow> Inr (on_error err st)
      | Resize win \<Rightarrow> Inr (resize win st)
      | DisplayFrame now \<Rightarrow> display_frame now st
      | MouseMove el e rect \<Rightarrow>
          Inr (if el \<in> set (mousemove_listeners st) then mousemove el e rect st else st)
      | TweenRender i vals \<Rightarrow> Inr (render_tween i vals st)
      | MediaChange width cards \<Rightarrow> Inr (matchMedia width cards st))"

fun run_events :: "event list \<Rightarrow> page \<Rightarrow> js_error + page" where
  "run_events [] st = Inr st"
| "run_events (ev # evs) st =
     (case step ev st of Inl e \<Rightarrow> Inl e | Inr st' \<Rightarrow> run_events evs st')"

text \<open>The state the script builds before its first call of \<^verbatim>\<open>animate\<close> (lines 5 to 106).\<close>

definition initial_page :: "window \<Rightarrow> page" where
  "initial_page win =
     (let w = innerWidth win; h = innerHeight win
      in \<lparr>sizes_width = w,
          sizes_height = h,
          camera = (PerspectiveCamera 75 (js_div w h) 0.1 100)\<lparr>camera_z := 4\<rparr>,
          renderer = setPixelRatio (min (devicePixelRatio win) 2)
                       (setSize w h (WebGLRenderer True True)),
          scene_children =
            [CameraNode,
             LightNode (AmbientLight 0xffffff 0.1),
             LightNode (SpotLight 0x0055ff 10 (Vector3 2 5 5) (pi / 4) 0.5),
             LightNode (PointLight 0x00aaff 5 (Vector3 (- 3) (- 2) 3)),
             LightNode (DirectionalLight 0xffffff 2 (Vector3 0 3 (- 5)))],
          objs = Map.empty,
          next_addr = 0,
          model = None,
          model_writes = 0,
          raf_queue = [],
          tweens = [],
          timelines = [],
          horizontalSection = None,
          wrapper = None,
          desktop_tweens = None,
          mobile_tweens = None,
          console = [],
          styles = (\<lambda>_. Map.empty),
          mousemove_listeners = []\<rparr>)"

text \<open>The whole script, run once when the page loads, at time \<open>now\<close>.\<close>

definition script :: "window \<Rightarrow> document \<Rightarrow> int \<Rightarrow> js_error + page" where
  "script win doc now =
     (case animate now (initial_page win) of
        Inl e \<Rightarrow> Inl e
      | Inr st \<Rightarrow>
          (let st1 = st\<lparr>timelines := timelines st @ [hero_timeline]\<rparr>;
               st2 = rotateModel st1;
               st3 = st2\<lparr>tweens := tweens st2 @ [reveal_info]\<rparr>;
               st4 = st3\<lparr>horizontalSection := horizontal_section doc,
                         wrapper := horizontal_wrapper doc\<rparr>;
               st5 = matchMedia (media_width doc) (h_cards doc) st4
           in Inr (st5\<lparr>mousemove_listeners := h_cards doc\<rparr>)))"

section \<open>Notions used in the statements\<close>

text \<open>A page is well formed when the shared reference, if set, points to an object of the store.\<close>

definition well_formed :: "page \<Rightarrow> bool" where
  "well_formed st = (case model st of None \<Rightarrow> True | Some a \<Rightarrow> objs st a \<noteq> None)"

text \<open>A bounding box moved by a vector.\<close>

definition translate :: "vec3 \<Rightarrow> box3 \<Rightarrow> box3" where
  "translate d b = (case b of EmptyBox \<Rightarrow> EmptyBox | Box lo hi \<Rightarrow> Box (vadd d lo) (vadd d hi))"

text \<open>
  The least and the greatest coordinate, along the axis \<open>c\<close>, of the asset's vertices in world
  space: each vertex turned by the asset's rotation and moved by its position.
\<close>

definition world_min :: "(vec3 \<Rightarrow> real) \<Rightarrow> asset \<Rightarrow> real" where
  "world_min c ob = Min ((\<lambda>v. c (position ob) + c (applyEuler (rotation ob) v)) ` set (vertices ob))"

definition world_max :: "(vec3 \<Rightarrow> real) \<Rightarrow> asset \<Rightarrow> real" where
  "world_max c ob = Max ((\<lambda>v. c (position ob) + c (applyEuler (rotation ob) v)) ` set (vertices ob))"

text \<open>The page after the script has run and the events of a trace have been handled in order.\<close>

definition page_after :: "window \<Rightarrow> document \<Rightarrow> int \<Rightarrow> event list \<Rightarrow> js_error + page" where
  "page_after win doc t0 evs =
     (case script win doc t0 of Inl e \<Rightarrow> Inl e | Inr st \<Rightarrow> run_events evs st)"

text \<open>The terminal outcomes of the loader are its success and its failure.\<close>

definition terminal :: "event \<Rightarrow> bool" where
  "terminal ev = (case ev of LoadSuccess g \<Rightarrow> True | LoadError err \<Rightarrow> True | _ \<Rightarrow> False)"

text \<open>
  The scroll-driven rotations attached so far are the tweens on an object's rotation that carry
  a scroll trigger; the retries that wait are the \<^verbatim>\<open>rotateModel\<close> callbacks in the queue.
\<close>

definition is_scroll_rotation :: "tween \<Rightarrow> bool" where
  "is_scroll_rotation tw =
     (case tw_target tw of RotationOf a \<Rightarrow> scrollTrigger tw \<noteq> None | _ \<Rightarrow> False)"

definition attachments :: "page \<Rightarrow> tween list" where
  "attachments st = filter is_scroll_rotation (tweens st)"

definition waiting :: "page \<Rightarrow> nat" where
  "waiting st = count_list (raf_queue st) RotateModel"

definition retry_inv :: "page \<Rightarrow> bool" where
  "retry_inv st \<longleftrightarrow>
     waiting st + length (attachments st) = 1 \<and>
     (model st = None \<longrightarrow> attachments st = []) \<and>
     (\<forall>tw \<in> set (attachments st). \<exists>a. tw = scroll_rotation a)"

definition settled :: "page \<Rightarrow> bool" where
  "settled st \<longleftrightarrow> model st \<noteq> None \<and> waiting st = 0"

text \<open>
  The render loop ticks when \<^verbatim>\<open>animate\<close> waits in the queue; the page refers to an object
  when the shared reference points to it in the store; the model has floated at time \<open>t\<close> when
  the height of the object the reference points to is the sinusoid offset of \<open>t\<close>. The last
  frame of a trace is the time of its last display frame, or the given time when it has none.
\<close>

definition ticking :: "page \<Rightarrow> bool" where
  "ticking st \<longleftrightarrow> Animate \<in> set (raf_queue st)"

definition refers :: "addr \<Rightarrow> page \<Rightarrow> bool" where
  "refers a st \<longleftrightarrow> model st = Some a \<and> objs st a \<noteq> None"

definition floated :: "addr \<Rightarrow> int \<Rightarrow> page \<Rightarrow> bool" where
  "floated a t st \<longleftrightarrow>
     model st = Some a \<and>
     (case objs st a of
        Some ob \<Rightarrow> vy (object_position ob) = float_offset (real_of_int t)
      | None \<Rightarrow> False)"

fun last_frame :: "event list \<Rightarrow> int \<Rightarrow> int" where
  "last_frame [] t = t"
| "last_frame (DisplayFrame t' # evs) t = last_frame evs t'"
| "last_frame (ev # evs) t = last_frame evs t"

text \<open>
  A desktop window, a document with both horizontal elements and two cards, an asset at the
  origin whose two vertices lie 1 and 3 above it, and an asset away from the origin, turned a
  quarter about the z axis.
\<close>

definition example_window :: window where
  "example_window = \<lparr>innerWidth = 1200, innerHeight = 800, devicePixelRatio = 3\<rparr>"

definition example_document :: document where
  "example_document =
     \<lparr>horizontal_wrapper = Some 1, horizontal_section = Some 2, h_cards = [3, 4], media_width = 1200\<rparr>"

definition example_gltf :: gltf where
  "example_gltf =
     \<lparr>scene = \<lparr>position = Vector3 0 0 0, rotation = Vector3 0 0 0,
                vertices = [Vector3 0 1 0, Vector3 0 3 0]\<rparr>\<rparr>"

definition example_turned :: gltf where
  "example_turned =
     \<lparr>scene = \<lparr>position = Vector3 1 0 0, rotation = Vector3 0 0 (pi / 2),
                vertices = [Vector3 1 0 0, Vector3 3 0 0]\<rparr>\<rparr>"

text \<open>The same document seen through a viewport 1023.5 pixels wide.\<close>

definition example_gap :: document where
  "example_gap = example_document\<lparr>media_width := 1023.5\<rparr>"


section \<open>Well-formed pages never fail\<close>

lemma well_formed_alt: "well_formed st \<longleftrightarrow> (\<forall>a. model st = Some a \<longrightarrow> objs st a \<noteq> None)"
  by (simp add: well_formed_def split: option.splits)

lemma well_formed_on_load: "well_formed (on_load g st)"
  by (simp add: well_formed_def on_load_def Let_def)

lemma well_formed_on_error: "well_formed (on_error err st)"
  by (simp add: well_formed_def on_error_def Let_def)

lemma well_formed_on_progress: "well_formed st \<Longrightarrow> well_formed (on_progress l t st)"
  by (simp add: well_formed_def on_progress_def split: option.splits)

lemma well_formed_resize: "well_formed st \<Longrightarrow> well_formed (resize win st)"
  by (simp add: well_formed_def resize_def Let_def split: option.splits)

lemma well_formed_mousemove: "well_formed st \<Longrightarrow> well_formed (mousemove el e rect st)"
  by (simp add: well_formed_def mousemove_def Let_def split: option.splits)

lemma well_formed_render_tween: "well_formed st \<Longrightarrow> well_formed (render_tween i vals st)"
  by (simp add: well_formed_alt render_tween_def split: target.splits option.splits)

lemma well_formed_matchMedia: "well_formed st \<Longrightarrow> well_formed (matchMedia width cards st)"
  by (simp add: well_formed_alt matchMedia_def)

lemma well_formed_rotateModel: "well_formed st \<Longrightarrow> well_formed (rotateModel st)"
  by (simp add: well_formed_def rotateModel_def split: option.splits)

lemma animate_well_formed: "well_formed st \<Longrightarrow> \<exists>st'. animate now st = Inr st' \<and> well_formed st'"
  by (auto simp add: well_formed_def animate_def Let_def render_def split: option.splits)

lemma run_callback_well_formed: "well_formed st \<Longrightarrow> \<exists>st'. run_callback now cb st = Inr st' \<and> well_formed st'"
  by (cases cb) (simp_all add: run_callback_def animate_well_formed well_formed_rotateModel)

lemma run_callbacks_well_formed: "well_formed st \<Longrightarrow> \<exists>st'. run_callbacks now cbs st = Inr st' \<and> well_formed st'"
proof (induction cbs arbitrary: st)
  case Nil
  then show ?case by simp
next
  case (Cons cb cbs)
  from run_callback_well_formed [OF Cons.prems, of now cb]
  obtain s where s: "run_callback now cb st = Inr s" "well_formed s" by blast
  from Cons.IH [OF s(2)] s(1) show ?case by simp
qed

lemma display_frame_well_formed: "well_formed st \<Longrightarrow> \<exists>st'. display_frame now st = Inr st' \<and> well_formed st'"
  unfolding display_frame_def
  by (rule run_callbacks_well_formed) (simp add: well_formed_alt)

lemma step_well_formed: "well_formed st \<Longrightarrow> \<exists>st'. step ev st = Inr st' \<and> well_formed st'"
  by (cases ev)
     (simp_all add: step_def well_formed_on_load well_formed_on_error well_formed_on_progress
        well_formed_resize well_formed_mousemove well_formed_render_tween well_formed_matchMedia
        display_frame_well_formed)

lemma run_events_well_formed: "well_formed st \<Longrightarrow> \<exists>st'. run_events evs st = Inr st' \<and> well_formed st'"
proof (induction evs arbitrary: st)
  case Nil
  then show ?case by simp
next
  case (Cons ev evs)
  from step_well_formed [OF Cons.prems, of ev]
  obtain s where s: "step ev st = Inr s" "well_formed s" by blast
  from Cons.IH [OF s(2)] s(1) show ?case by simp
qed

lemma run_events_append:
  "run_events (xs @ ys) st = (case run_events xs st of Inl e \<Rightarrow> Inl e | Inr s \<Rightarrow> run_events ys s)"
  by (induction xs arbitrary: st) (simp_all split: sum.splits)

lemma script_value:
  "script win doc now =
     Inr ((matchMedia (media_width doc) (h_cards doc)
            ((render ((initial_page win)\<lparr>raf_queue := [Animate]\<rparr>))
               \<lparr>timelines := [hero_timeline],
                raf_queue := [Animate, RotateModel],
                tweens := [reveal_info],
                horizontalSection := horizontal_section doc,
                wrapper := horizontal_wrapper doc\<rparr>))
          \<lparr>mousemove_listeners := h_cards doc\<rparr>)"
  by (simp add: script_def animate_def initial_page_def Let_def render_def rotateModel_def)


section \<open>Bounding boxes under translation\<close>

lemma expand_translate:
  "expandByPoint (translate d b) (vadd d p) = translate d (expandByPoint b p)"
  by (cases b) (auto simp add: expandByPoint_def translate_def vmin_def vmax_def vadd_def min_def max_def)

lemma foldl_expand_translate:
  "foldl expandByPoint (translate d b) (map (\<lambda>v. vadd d (f v)) ps) =
   translate d (foldl expandByPoint b (map f ps))"
  by (induction ps arbitrary: b) (simp_all add: expand_translate)

lemma setFromObject_translate:
  "setFromObject ob =
   translate (position ob) (foldl expandByPoint EmptyBox (map (applyEuler (rotation ob)) (vertices ob)))"
proof -
  have "applyMatrix4 ob = (\<lambda>v. vadd (position ob) (applyEuler (rotation ob) v))"
    by (rule ext) (simp add: applyMatrix4_def)
  with foldl_expand_translate [of "position ob" EmptyBox "applyEuler (rotation ob)" "vertices ob"]
  show ?thesis by (simp add: setFromObject_def translate_def)
qed

lemma getCenter_translate:
  "getCenter (translate d b) = (case b of EmptyBox \<Rightarrow> Vector3 0 0 0 | Box lo hi \<Rightarrow> vadd d (getCenter b))"
  by (cases b) (simp_all add: getCenter_def translate_def vadd_def multiplyScalar_def field_simps)

lemma centred_center:
  "getCenter (setFromObject (ob\<lparr>position := vsub (position ob) (getCenter (setFromObject ob))\<rparr>)) =
   Vector3 0 0 0"
  by (cases "foldl expandByPoint EmptyBox (map (applyEuler (rotation ob)) (vertices ob))")
     (simp_all add: setFromObject_translate getCenter_translate vadd_def vsub_def)

lemma Min_insert_min:
  fixes a :: real
  assumes "finite A"
  shows "Min (insert (min a b) A) = Min (insert a (insert b A))"
  using assms by (cases "A = {}") (simp_all add: min.assoc)

lemma Max_insert_max:
  fixes a :: real
  assumes "finite A"
  shows "Max (insert (max a b) A) = Max (insert a (insert b A))"
  using assms by (cases "A = {}") (simp_all add: max.assoc)

lemma foldl_expand_min_max:
  "foldl expandByPoint (Box lo hi) ps =
   Box (Vector3 (Min (insert (vx lo) (vx ` set ps))) (Min (insert (vy lo) (vy ` set ps)))
                (Min (insert (vz lo) (vz ` set ps))))
       (Vector3 (Max (insert (vx hi) (vx ` set ps))) (Max (insert (vy hi) (vy ` set ps)))
                (Max (insert (vz hi) (vz ` set ps))))"
proof (induction ps arbitrary: lo hi)
  case Nil
  show ?case by simp
next
  case (Cons p ps)
  have "foldl expandByPoint (Box lo hi) (p # ps) = foldl expandByPoint (Box (vmin lo p) (vmax hi p)) ps"
    by (simp add: expandByPoint_def)
  also have "\<dots> =
   Box (Vector3 (Min (insert (min (vx lo) (vx p)) (vx ` set ps)))
                (Min (insert (min (vy lo) (vy p)) (vy ` set ps)))
                (Min (insert (min (vz lo) (vz p)) (vz ` set ps))))
       (Vector3 (Max (insert (max (vx hi) (vx p)) (vx ` set ps)))
                (Max (insert (max (vy hi) (vy p)) (vy ` set ps)))
                (Max (insert (max (vz hi) (vz p)) (vz ` set ps))))"
    by (simp add: Cons.IH vmin_def vmax_def)
  finally show ?case by (simp add: Min_insert_min Max_insert_max)
qed

lemma box_min_max:
  assumes "ps \<noteq> []"
  shows "foldl expandByPoint EmptyBox ps =
   Box (Vector3 (Min (vx ` set ps)) (Min (vy ` set ps)) (Min (vz ` set ps)))
       (Vector3 (Max (vx ` set ps)) (Max (vy ` set ps)) (Max (vz ` set ps)))"
proof -
  from assms obtain p qs where ps: "ps = p # qs" by (cases ps) auto
  show ?thesis by (simp add: ps expandByPoint_def foldl_expand_min_max)
qed

lemma setFromObject_min_max:
  assumes "vertices ob \<noteq> []"
  shows "setFromObject ob =
   Box (Vector3 (world_min vx ob) (world_min vy ob) (world_min vz ob))
       (Vector3 (world_max vx ob) (world_max vy ob) (world_max vz ob))"
proof -
  have ne: "map (applyMatrix4 ob) (vertices ob) \<noteq> []" using assms by simp
  have im: "\<And>c. c ` set (map (applyMatrix4 ob) (vertices ob)) =
      (\<lambda>v. c (applyMatrix4 ob v)) ` set (vertices ob)"
    by (simp add: image_image)
  show ?thesis
    unfolding setFromObject_def box_min_max [OF ne] im
    by (simp add: world_min_def world_max_def applyMatrix4_def vadd_def)
qed

lemma getCenter_min_max:
  assumes "vertices ob \<noteq> []"
  shows "getCenter (setFromObject ob) =
   Vector3 ((world_min vx ob + world_max vx ob) / 2) ((world_min vy ob + world_max vy ob) / 2)
           ((world_min vz ob + world_max vz ob) / 2)"
  by (simp add: setFromObject_min_max [OF assms] getCenter_def vadd_def multiplyScalar_def)


section \<open>Rendering and floating\<close>


lemma float_offset_bound: "\<bar>float_offset t\<bar> \<le> 0.1"
proof -
  have "\<bar>sin (t * 0.001)\<bar> \<le> 1" by (rule abs_sin_le_one)
  then show ?thesis by (simp add: float_offset_def abs_mult)
qed




lemma position_y_set: "object_position (set_position_y v ob) =
   Vector3 (vx (object_position ob)) v (vz (object_position ob))"
  by (cases ob) (simp_all add: object_position_def set_position_y_def)


section \<open>What a display frame does to the retry\<close>

lemma is_scroll_rotation_simps [simp]:
  "is_scroll_rotation (scroll_rotation a)"
  "\<not> is_scroll_rotation (idle_rotation a)"
  "\<not> is_scroll_rotation reveal_info"
  "\<not> is_scroll_rotation (horizontal_scroll w hs)"
  "\<not> is_scroll_rotation (card_reveal el)"
  by (simp_all add: is_scroll_rotation_def scroll_rotation_def idle_rotation_def reveal_info_def
        horizontal_scroll_def card_reveal_def)

lemma rotateModel_effect:
  "model (rotateModel st) = model st \<and> model_writes (rotateModel st) = model_writes st \<and>
   next_addr (rotateModel st) = next_addr st \<and>
   (case model st of
      None \<Rightarrow> attachments (rotateModel st) = attachments st \<and> waiting (rotateModel st) = Suc (waiting st)
    | Some a \<Rightarrow> attachments (rotateModel st) = attachments st @ [scroll_rotation a] \<and>
        waiting (rotateModel st) = waiting st)"
  by (simp add: rotateModel_def attachments_def waiting_def split: option.splits)

lemma animate_effect:
  "animate now st = Inr st' \<Longrightarrow>
   model st' = model st \<and> model_writes st' = model_writes st \<and> next_addr st' = next_addr st \<and>
   attachments st' = attachments st \<and> waiting st' = waiting st"
  by (auto simp add: animate_def Let_def render_def attachments_def waiting_def split: option.splits)

lemma run_callback_effect:
  "run_callback now cb st = Inr st' \<Longrightarrow>
   model st' = model st \<and> model_writes st' = model_writes st \<and> next_addr st' = next_addr st \<and>
   (case model st of
      None \<Rightarrow> attachments st' = attachments st \<and>
        waiting st' = waiting st + count_list [cb] RotateModel
    | Some a \<Rightarrow> attachments st' = attachments st @ replicate (count_list [cb] RotateModel) (scroll_rotation a) \<and>
        waiting st' = waiting st)"
proof (cases cb)
  case Animate
  assume "run_callback now cb st = Inr st'"
  with Animate have "animate now st = Inr st'" by (simp add: run_callback_def)
  from animate_effect [OF this] Animate show ?thesis by (simp split: option.splits)
next
  case RotateModel
  assume "run_callback now cb st = Inr st'"
  with RotateModel have "st' = rotateModel st" by (simp add: run_callback_def)
  with rotateModel_effect [of st] RotateModel show ?thesis by (simp split: option.splits)
qed

lemma run_callbacks_effect:
  "run_callbacks now cbs st = Inr st' \<Longrightarrow>
   model st' = model st \<and> model_writes st' = model_writes st \<and> next_addr st' = next_addr st \<and>
   (case model st of
      None \<Rightarrow> attachments st' = attachments st \<and>
        waiting st' = waiting st + count_list cbs RotateModel
    | Some a \<Rightarrow> attachments st' = attachments st @ replicate (count_list cbs RotateModel) (scroll_rotation a) \<and>
        waiting st' = waiting st)"
proof (induction cbs arbitrary: st)
  case Nil
  then show ?case by (simp split: option.splits)
next
  case (Cons cb cbs)
  from Cons.prems obtain s where s: "run_callback now cb st = Inr s" "run_callbacks now cbs s = Inr st'"
    by (auto split: sum.splits)
  note a = run_callback_effect [OF s(1)]
  note b = Cons.IH [OF s(2)]
  show ?case
  proof (cases "model st")
    case None
    with a b show ?thesis by simp
  next
    case (Some x)
    with a b show ?thesis by (simp add: replicate_add [symmetric] del: replicate_add)
  qed
qed

lemma display_frame_effect:
  "display_frame now st = Inr st' \<Longrightarrow>
   model st' = model st \<and> model_writes st' = model_writes st \<and> next_addr st' = next_addr st \<and>
   (case model st of
      None \<Rightarrow> attachments st' = attachments st \<and> waiting st' = waiting st
    | Some a \<Rightarrow> attachments st' = attachments st @ replicate (waiting st) (scroll_rotation a) \<and>
        waiting st' = 0)"
  using run_callbacks_effect [of now "raf_queue st" "st\<lparr>raf_queue := []\<rparr>" st']
  by (simp add: display_frame_def waiting_def attachments_def split: option.splits)

lemma step_effect:
  assumes "step ev st = Inr st'"
  shows "model_writes st' = model_writes st + (if terminal ev then 1 else 0)"
    and "terminal ev \<Longrightarrow> model st' = Some (next_addr st)"
    and "\<not> terminal ev \<Longrightarrow> model st' = model st \<and> next_addr st' = next_addr st"
proof -
  have "model_writes st' = model_writes st + (if terminal ev then 1 else 0) \<and>
      (terminal ev \<longrightarrow> model st' = Some (next_addr st)) \<and>
      (\<not> terminal ev \<longrightarrow> model st' = model st \<and> next_addr st' = next_addr st)"
  proof (cases ev)
    case (DisplayFrame now)
    with assms have "display_frame now st = Inr st'" by (simp add: step_def)
    from display_frame_effect [OF this] DisplayFrame show ?thesis by (simp add: terminal_def)
  qed (use assms in \<open>auto simp add: step_def terminal_def on_load_def on_error_def on_progress_def
        resize_def mousemove_def render_tween_def matchMedia_def Let_def
        split: target.splits option.splits\<close>)
  then show "model_writes st' = model_writes st + (if terminal ev then 1 else 0)"
    and "terminal ev \<Longrightarrow> model st' = Some (next_addr st)"
    and "\<not> terminal ev \<Longrightarrow> model st' = model st \<and> next_addr st' = next_addr st"
    by simp_all
qed

lemma step_attachments:
  assumes "step ev st = Inr st'"
  shows "(case ev of
      DisplayFrame now \<Rightarrow>
        (case model st of
           None \<Rightarrow> attachments st' = attachments st \<and> waiting st' = waiting st
         | Some a \<Rightarrow> attachments st' = attachments st @ replicate (waiting st) (scroll_rotation a) \<and>
             waiting st' = 0)
    | _ \<Rightarrow> attachments st' = attachments st \<and> waiting st' = waiting st)"
proof (cases ev)
  case (DisplayFrame now)
  with assms have "display_frame now st = Inr st'" by (simp add: step_def)
  from display_frame_effect [OF this] DisplayFrame show ?thesis by simp
qed (use assms in \<open>auto simp add: step_def attachments_def waiting_def on_load_def on_error_def
      on_progress_def resize_def mousemove_def render_tween_def matchMedia_def Let_def
      split: target.splits option.splits\<close>)

lemma model_stays_set:
  assumes "step ev st = Inr st'" and "model st \<noteq> None"
  shows "model st' \<noteq> None"
  using step_effect(2,3) [OF assms(1)] assms(2) by (cases "terminal ev") auto

lemma retry_inv_step:
  assumes "retry_inv st" and "step ev st = Inr st'"
  shows "retry_inv st'"
proof (cases ev)
  case (DisplayFrame now)
  note eff = step_attachments [OF assms(2)] step_effect(3) [OF assms(2)]
  show ?thesis
  proof (cases "model st")
    case None
    with eff DisplayFrame assms(1) show ?thesis by (auto simp add: retry_inv_def terminal_def)
  next
    case (Some a)
    with eff DisplayFrame have e: "attachments st' = attachments st @ replicate (waiting st) (scroll_rotation a)"
      "waiting st' = 0" "model st' = Some a"
      by (simp_all add: terminal_def)
    from assms(1) have "waiting st + length (attachments st) = 1"
      and "\<forall>tw \<in> set (attachments st). \<exists>a. tw = scroll_rotation a"
      by (simp_all add: retry_inv_def)
    with e show ?thesis by (auto simp add: retry_inv_def)
  qed
next
  case (LoadSuccess g)
  with step_attachments [OF assms(2)] step_effect(2) [OF assms(2)] assms(1)
  show ?thesis by (auto simp add: retry_inv_def terminal_def)
next
  case (LoadError err)
  with step_attachments [OF assms(2)] step_effect(2) [OF assms(2)] assms(1)
  show ?thesis by (auto simp add: retry_inv_def terminal_def)
next
  case (LoadProgress l t)
  with step_attachments [OF assms(2)] step_effect(3) [OF assms(2)] assms(1)
  show ?thesis by (auto simp add: retry_inv_def terminal_def)
next
  case (Resize win)
  with step_attachments [OF assms(2)] step_effect(3) [OF assms(2)] assms(1)
  show ?thesis by (auto simp add: retry_inv_def terminal_def)
next
  case (MouseMove el e rect)
  with step_attachments [OF assms(2)] step_effect(3) [OF assms(2)] assms(1)
  show ?thesis by (auto simp add: retry_inv_def terminal_def)
next
  case (TweenRender i vals)
  with step_attachments [OF assms(2)] step_effect(3) [OF assms(2)] assms(1)
  show ?thesis by (auto simp add: retry_inv_def terminal_def)
next
  case (MediaChange width cards)
  with step_attachments [OF assms(2)] step_effect(3) [OF assms(2)] assms(1)
  show ?thesis by (auto simp add: retry_inv_def terminal_def)
qed

lemma retry_inv_run:
  "retry_inv st \<Longrightarrow> run_events evs st = Inr st' \<Longrightarrow> retry_inv st'"
proof (induction evs arbitrary: st)
  case Nil
  then show ?case by simp
next
  case (Cons ev evs)
  from Cons.prems(2) obtain s where s: "step ev st = Inr s" "run_events evs s = Inr st'"
    by (auto split: sum.splits)
  from Cons.IH [OF retry_inv_step [OF Cons.prems(1) s(1)] s(2)] show ?case .
qed

lemma settled_step:
  assumes "settled st" and "step ev st = Inr st'"
  shows "settled st'"
proof -
  from assms(1) obtain a where a: "model st = Some a" "waiting st = 0" by (auto simp add: settled_def)
  from model_stays_set [OF assms(2)] a have "model st' \<noteq> None" by simp
  moreover from step_attachments [OF assms(2)] a have "waiting st' = 0"
    by (cases ev) simp_all
  ultimately show ?thesis by (simp add: settled_def)
qed

lemma settled_run:
  "settled st \<Longrightarrow> run_events evs st = Inr st' \<Longrightarrow> settled st'"
proof (induction evs arbitrary: st)
  case Nil
  then show ?case by simp
next
  case (Cons ev evs)
  from Cons.prems(2) obtain s where s: "step ev st = Inr s" "run_events evs s = Inr st'"
    by (auto split: sum.splits)
  from Cons.IH [OF settled_step [OF Cons.prems(1) s(1)] s(2)] show ?case .
qed

lemma script_start:
  assumes "script win doc now = Inr st"
  shows "well_formed st" and "retry_inv st" and "model st = None" and "model_writes st = 0"
    and "Animate \<in> set (raf_queue st)"
proof -
  from assms have st: "st = (matchMedia (media_width doc) (h_cards doc)
            ((render ((initial_page win)\<lparr>raf_queue := [Animate]\<rparr>))
               \<lparr>timelines := [hero_timeline],
                raf_queue := [Animate, RotateModel],
                tweens := [reveal_info],
                horizontalSection := horizontal_section doc,
                wrapper := horizontal_wrapper doc\<rparr>))
          \<lparr>mousemove_listeners := h_cards doc\<rparr>"
    by (simp add: script_value)
  show m: "model st = None" by (simp add: st matchMedia_def render_def initial_page_def Let_def)
  then show "well_formed st" by (simp add: well_formed_alt)
  show "model_writes st = 0" by (simp add: st matchMedia_def render_def initial_page_def Let_def)
  show "Animate \<in> set (raf_queue st)" by (simp add: st matchMedia_def)
  have "attachments st = []" by (simp add: st matchMedia_def attachments_def)
  moreover have "waiting st = 1" by (simp add: st matchMedia_def waiting_def)
  ultimately show "retry_inv st" by (simp add: retry_inv_def)
qed

lemma page_after_total: "\<exists>st. page_after win doc t0 evs = Inr st \<and> well_formed st"
proof -
  obtain s0 where s0: "script win doc t0 = Inr s0" by (simp add: script_value)
  from run_events_well_formed [OF script_start(1) [OF s0], of evs] s0 show ?thesis
    by (simp add: page_after_def)
qed

lemma page_after_inv:
  assumes "page_after win doc t0 evs = Inr st"
  shows "well_formed st" and "retry_inv st"
proof -
  obtain s0 where s0: "script win doc t0 = Inr s0" by (simp add: script_value)
  with assms have r: "run_events evs s0 = Inr st" by (simp add: page_after_def)
  from page_after_total [of win doc t0 evs] assms show "well_formed st" by auto
  from retry_inv_run [OF script_start(2) [OF s0] r] show "retry_inv st" .
qed

lemma page_after_projr: "page_after win doc t0 evs = Inr (projr (page_after win doc t0 evs))"
  using page_after_total [of win doc t0 evs] by auto

lemma run_events_writes:
  "run_events evs st = Inr st' \<Longrightarrow>
   model_writes st' = model_writes st + length (filter terminal evs) \<and>
   (filter terminal evs = [] \<longrightarrow> model st' = model st \<and> next_addr st' = next_addr st)"
proof (induction evs arbitrary: st)
  case Nil
  then show ?case by simp
next
  case (Cons ev evs)
  from Cons.prems obtain s where s: "step ev st = Inr s" "run_events evs s = Inr st'"
    by (auto split: sum.splits)
  from step_effect [OF s(1)] Cons.IH [OF s(2)] show ?case by (cases "terminal ev") simp_all
qed

lemma terminal_stores:
  assumes "terminal t" and "step t st = Inr st'"
  shows "case t of
      LoadSuccess g \<Rightarrow> (\<exists>ob. objs st' (next_addr st) = Some (Group ob) \<and> vertices ob = vertices (scene g))
    | _ \<Rightarrow> objs st' (next_addr st) = Some (Mesh fallback_mesh)"
  using assms by (cases t) (auto simp add: terminal_def step_def on_load_def on_error_def Let_def)

lemma scroll_rotation_target:
  "tw_method (scroll_rotation b) = To \<and>
   tw_target (scroll_rotation b) = RotationOf b \<and>
   vars (scroll_rotation b) = [(''z'', N (pi / 2))] \<and>
   scrollTrigger (scroll_rotation b) = Some (hero_trigger\<lparr>st_pin := False\<rparr>) \<and>
   tl_scrollTrigger hero_timeline = Some hero_trigger"
  by (simp add: scroll_rotation_def hero_trigger_def hero_timeline_def timeline_to_def Let_def)


section \<open>From the first tick onward\<close>

lemma position_rotation_set: "object_position (set_rotation r ob) = object_position ob"
  by (cases ob) (simp_all add: object_position_def set_rotation_def)

lemma animate_floated:
  assumes "model st = Some a" and "objs st a = Some ob"
  shows "\<exists>st'. animate now st = Inr st' \<and>
      objs st' a = Some (set_position_y (float_offset (real_of_int now)) ob) \<and>
      floated a now st' \<and> ticking st'"
  using assms
  by (simp add: animate_def Let_def floated_def ticking_def render_def position_y_set)

lemma callback_refers:
  assumes "refers a st"
  shows "\<exists>st'. run_callback now cb st = Inr st' \<and> refers a st' \<and>
      (cb = Animate \<or> floated a now st \<longrightarrow> floated a now st') \<and>
      (cb = Animate \<or> ticking st \<longrightarrow> ticking st')"
proof (cases cb)
  case Animate
  from assms obtain ob where ob: "model st = Some a" "objs st a = Some ob"
    by (auto simp add: refers_def)
  from animate_floated [OF ob, of now] obtain st' where
    st': "animate now st = Inr st'" "floated a now st'" "ticking st'" by blast
  from st'(2) have "refers a st'" by (auto simp add: floated_def refers_def split: option.splits)
  with st' Animate show ?thesis by (simp add: run_callback_def)
next
  case RotateModel
  with assms show ?thesis
    by (auto simp add: run_callback_def rotateModel_def refers_def floated_def ticking_def
          split: option.splits)
qed

lemma callbacks_refers:
  "refers a st \<Longrightarrow>
   \<exists>st'. run_callbacks now cbs st = Inr st' \<and> refers a st' \<and>
      (Animate \<in> set cbs \<or> floated a now st \<longrightarrow> floated a now st') \<and>
      (Animate \<in> set cbs \<or> ticking st \<longrightarrow> ticking st')"
proof (induction cbs arbitrary: st)
  case Nil
  then show ?case by simp
next
  case (Cons cb cbs)
  from callback_refers [OF Cons.prems, of now cb]
  obtain s where s: "run_callback now cb st = Inr s" "refers a s"
    "cb = Animate \<or> floated a now st \<longrightarrow> floated a now s"
    "cb = Animate \<or> ticking st \<longrightarrow> ticking s"
    by blast
  from Cons.IH [OF s(2)]
  obtain st' where st': "run_callbacks now cbs s = Inr st'" "refers a st'"
    "Animate \<in> set cbs \<or> floated a now s \<longrightarrow> floated a now st'"
    "Animate \<in> set cbs \<or> ticking s \<longrightarrow> ticking st'"
    by blast
  from s st' show ?case by auto
qed

lemma frame_floats:
  assumes "refers a st" and "ticking st"
  shows "\<exists>st'. display_frame now st = Inr st' \<and> floated a now st' \<and> ticking st'"
proof -
  from assms(1) have "refers a (st\<lparr>raf_queue := []\<rparr>)" by (simp add: refers_def)
  from callbacks_refers [OF this, of now "raf_queue st"] assms(2)
  show ?thesis by (auto simp add: display_frame_def ticking_def)
qed

lemma floated_refers: "floated a t st \<Longrightarrow> refers a st"
  by (auto simp add: floated_def refers_def split: option.splits)

lemma refers_step:
  assumes "refers a st" and "ticking st" and "\<not> terminal ev"
  shows "\<exists>st'. step ev st = Inr st' \<and> refers a st' \<and> ticking st'"
proof (cases ev)
  case (DisplayFrame now)
  from frame_floats [OF assms(1,2), of now] DisplayFrame show ?thesis
    by (auto simp add: step_def dest: floated_refers)
next
  case (TweenRender i vals)
  with assms show ?thesis
    by (auto simp add: step_def render_tween_def refers_def ticking_def
          split: target.splits option.splits)
qed (use assms in \<open>auto simp add: step_def terminal_def refers_def ticking_def on_progress_def
      resize_def mousemove_def matchMedia_def Let_def\<close>)

lemma floated_step:
  assumes "floated a t st" and "ticking st" and "\<not> terminal ev"
  shows "\<exists>st'. step ev st = Inr st' \<and> floated a (last_frame [ev] t) st' \<and> ticking st'"
proof (cases ev)
  case (DisplayFrame now)
  from frame_floats [OF floated_refers [OF assms(1)] assms(2), of now] DisplayFrame show ?thesis
    by (simp add: step_def)
next
  case (TweenRender i vals)
  with assms show ?thesis
    by (auto simp add: step_def render_tween_def floated_def ticking_def position_rotation_set
          split: target.splits option.splits)
qed (use assms in \<open>auto simp add: step_def terminal_def floated_def ticking_def on_progress_def
      resize_def mousemove_def matchMedia_def Let_def split: option.splits\<close>)

lemma last_frame_step: "last_frame (ev # evs) t = last_frame evs (last_frame [ev] t)"
  by (cases ev) simp_all

lemma refers_run:
  "refers a st \<Longrightarrow> ticking st \<Longrightarrow> \<forall>e \<in> set evs. \<not> terminal e \<Longrightarrow>
   \<exists>st'. run_events evs st = Inr st' \<and> refers a st' \<and> ticking st'"
proof (induction evs arbitrary: st)
  case Nil
  then show ?case by simp
next
  case (Cons ev evs)
  from Cons.prems(3) have nt: "\<not> terminal ev" "\<forall>e \<in> set evs. \<not> terminal e" by simp_all
  from refers_step [OF Cons.prems(1,2) nt(1)]
  obtain s where s: "step ev st = Inr s" "refers a s" "ticking s" by blast
  from Cons.IH [OF s(2,3) nt(2)] s(1) show ?case by simp
qed

lemma floated_run:
  "floated a t st \<Longrightarrow> ticking st \<Longrightarrow> \<forall>e \<in> set evs. \<not> terminal e \<Longrightarrow>
   \<exists>st'. run_events evs st = Inr st' \<and> floated a (last_frame evs t) st' \<and> ticking st'"
proof (induction evs arbitrary: st t)
  case Nil
  then show ?case by simp
next
  case (Cons ev evs)
  from Cons.prems(3) have nt: "\<not> terminal ev" "\<forall>e \<in> set evs. \<not> terminal e" by simp_all
  from floated_step [OF Cons.prems(1,2) nt(1)]
  obtain s where s: "step ev st = Inr s" "floated a (last_frame [ev] t) s" "ticking s" by blast
  from Cons.IH [OF s(2,3) nt(2)] s(1) last_frame_step [of ev evs t] show ?case by simp
qed

lemma callbacks_ticking:
  "run_callbacks now cbs st = Inr st' \<Longrightarrow> Animate \<in> set cbs \<or> ticking st \<Longrightarrow> ticking st'"
proof (induction cbs arbitrary: st)
  case Nil
  then show ?case by simp
next
  case (Cons cb cbs)
  from Cons.prems(1) obtain s where s: "run_callback now cb st = Inr s" "run_callbacks now cbs s = Inr st'"
    by (auto split: sum.splits)
  have "cb = Animate \<or> ticking st \<Longrightarrow> ticking s"
    using s(1)
    by (cases cb)
       (auto simp add: run_callback_def animate_def rotateModel_def Let_def render_def ticking_def
          split: option.splits)
  with Cons.prems(2) have "Animate \<in> set cbs \<or> ticking s" by auto
  from Cons.IH [OF s(2) this] show ?case .
qed

lemma ticking_step:
  assumes "ticking st" and "step ev st = Inr st'"
  shows "ticking st'"
proof (cases ev)
  case (DisplayFrame now)
  with assms(2) have "run_callbacks now (raf_queue st) (st\<lparr>raf_queue := []\<rparr>) = Inr st'"
    by (simp add: step_def display_frame_def)
  from callbacks_ticking [OF this] assms(1) show ?thesis by (simp add: ticking_def)
qed (use assms in \<open>auto simp add: step_def ticking_def on_load_def on_error_def on_progress_def
      resize_def mousemove_def render_tween_def matchMedia_def Let_def
      split: target.splits option.splits\<close>)

lemma ticking_run: "ticking st \<Longrightarrow> run_events evs st = Inr st' \<Longrightarrow> ticking st'"
proof (induction evs arbitrary: st)
  case Nil
  then show ?case by simp
next
  case (Cons ev evs)
  from Cons.prems(2) obtain s where s: "step ev st = Inr s" "run_events evs s = Inr st'"
    by (auto split: sum.splits)
  from Cons.IH [OF ticking_step [OF Cons.prems(1) s(1)] s(2)] show ?case .
qed

lemma page_after_ticking:
  assumes "page_after win doc t0 evs = Inr st"
  shows "ticking st"
proof -
  obtain s0 where s0: "script win doc t0 = Inr s0" by (simp add: script_value)
  with assms have r: "run_events evs s0 = Inr st" by (simp add: page_after_def)
  from script_start(5) [OF s0] have "ticking s0" by (simp add: ticking_def)
  from ticking_run [OF this r] show ?thesis .
qed

lemma page_after_append:
  "page_after win doc t0 (xs @ ys) =
     (case page_after win doc t0 xs of Inl e \<Rightarrow> Inl e | Inr s \<Rightarrow> run_events ys s)"
  by (simp add: page_after_def run_events_append split: sum.splits)


section \<open>The shared reference\<close>

text \<open>
  Claim C1, as stated, on the trace where the loader reports success and then failure: the
  reference is written twice, first to the asset and then to the fallback mesh, so the outcome
  that occurs later is not ignored.
\<close>

theorem model_written_once_counterexample:
  "\<not> isl (page_after example_window example_document 0 [LoadSuccess example_gltf, LoadError ''404'']) \<and>
   model (projr (page_after example_window example_document 0 [LoadSuccess example_gltf])) = Some 0 \<and>
   model_writes (projr (page_after example_window example_document 0 [LoadSuccess example_gltf])) = 1 \<and>
   model (projr (page_after example_window example_document 0 [LoadSuccess example_gltf, LoadError ''404''])) = Some 1 \<and>
   model_writes (projr (page_after example_window example_document 0 [LoadSuccess example_gltf, LoadError ''404''])) = 2"
  by (simp add: page_after_def script_value matchMedia_def step_def on_load_def on_error_def render_def
        initial_page_def Let_def)

text \<open>
  Claim C1, amended. The reference is null after the script and is assigned by the loader's two
  terminal callbacks only, once at each call: on a trace where the loader reports one terminal
  outcome, success or failure, the reference is null and unwritten before that event, it is
  the asset or the fallback mesh after it, and it has been written once and is the same after
  any further events. On any trace the number of writes is the number of terminal events, and
  a terminal event on any page assigns the reference again, to the object it brings.
\<close>

theorem model_written_by_loader:
  assumes "\<forall>e \<in> set before. \<not> terminal e" and "terminal t" and "\<forall>e \<in> set after. \<not> terminal e"
  shows "(\<exists>s1 s2 s3.
      page_after win doc t0 before = Inr s1 \<and> model s1 = None \<and> model_writes s1 = 0 \<and>
      step t s1 = Inr s2 \<and> model s2 = Some (next_addr s1) \<and> model_writes s2 = 1 \<and>
      (case t of
         LoadSuccess g \<Rightarrow> (\<exists>ob. objs s2 (next_addr s1) = Some (Group ob) \<and> vertices ob = vertices (scene g))
       | _ \<Rightarrow> objs s2 (next_addr s1) = Some (Mesh fallback_mesh)) \<and>
      page_after win doc t0 (before @ t # after) = Inr s3 \<and> model s3 = model s2 \<and> model_writes s3 = 1) \<and>
    (\<exists>st. page_after win doc t0 evs = Inr st \<and> model_writes st = length (filter terminal evs)) \<and>
    (terminal ev \<longrightarrow>
       (\<exists>st'. step ev st = Inr st' \<and> model st' = Some (next_addr st) \<and>
          model_writes st' = Suc (model_writes st)))"
proof -
  obtain s0 where s0: "script win doc t0 = Inr s0" by (simp add: script_value)
  note start = script_start [OF s0]
  have none: "\<And>xs. \<forall>e \<in> set xs. \<not> terminal e \<Longrightarrow> filter terminal xs = []"
    by (simp add: filter_empty_conv)
  obtain s1 where s1: "run_events before s0 = Inr s1" "well_formed s1"
    using run_events_well_formed [OF start(1), of before] by blast
  obtain s2 where s2: "step t s1 = Inr s2" "well_formed s2"
    using step_well_formed [OF s1(2), of t] by blast
  obtain s3 where s3: "run_events after s2 = Inr s3"
    using run_events_well_formed [OF s2(2), of after] by blast
  from run_events_writes [OF s1(1)] none [OF assms(1)] start
  have p1: "model s1 = None" "model_writes s1 = 0" by simp_all
  from step_effect(1,2) [OF s2(1)] assms(2) p1
  have p2: "model s2 = Some (next_addr s1)" "model_writes s2 = 1" by simp_all
  from run_events_writes [OF s3] none [OF assms(3)] p2
  have p3: "model s3 = model s2" "model_writes s3 = 1" by simp_all
  have r1: "page_after win doc t0 before = Inr s1" using s0 s1(1) by (simp add: page_after_def)
  have r3: "page_after win doc t0 (before @ t # after) = Inr s3"
    using s0 s1(1) s2(1) s3 by (simp add: page_after_def run_events_append)
  have first: "\<exists>s1 s2 s3.
      page_after win doc t0 before = Inr s1 \<and> model s1 = None \<and> model_writes s1 = 0 \<and>
      step t s1 = Inr s2 \<and> model s2 = Some (next_addr s1) \<and> model_writes s2 = 1 \<and>
      (case t of
         LoadSuccess g \<Rightarrow> (\<exists>ob. objs s2 (next_addr s1) = Some (Group ob) \<and> vertices ob = vertices (scene g))
       | _ \<Rightarrow> objs s2 (next_addr s1) = Some (Mesh fallback_mesh)) \<and>
      page_after win doc t0 (before @ t # after) = Inr s3 \<and> model s3 = model s2 \<and> model_writes s3 = 1"
    using r1 p1 s2(1) p2 terminal_stores [OF assms(2) s2(1)] r3 p3 by blast
  obtain sn where sn: "run_events evs s0 = Inr sn"
    using run_events_well_formed [OF start(1), of evs] by blast
  from run_events_writes [OF sn] start(4) s0 sn
  have count: "page_after win doc t0 evs = Inr sn \<and> model_writes sn = length (filter terminal evs)"
    by (simp add: page_after_def)
  have again: "terminal ev \<longrightarrow>
       (\<exists>st'. step ev st = Inr st' \<and> model st' = Some (next_addr st) \<and>
          model_writes st' = Suc (model_writes st))"
    by (cases ev) (simp_all add: terminal_def step_def on_load_def on_error_def Let_def)
  from first count again show ?thesis by blast
qed

theorem model_written_by_loader_witness:
  "\<not> terminal (LoadProgress 10 100) \<and> \<not> terminal (DisplayFrame 16) \<and>
   terminal (LoadError ''404'') \<and>
   \<not> terminal (DisplayFrame 32) \<and> \<not> terminal (Resize example_window) \<and>
   model (projr (page_after example_window example_document 0 [LoadProgress 10 100, DisplayFrame 16])) = None \<and>
   model_writes (projr (page_after example_window example_document 0
      [LoadProgress 10 100, DisplayFrame 16, LoadError ''404'', DisplayFrame 32, Resize example_window])) = 1 \<and>
   model (projr (page_after example_window example_document 0
      [LoadProgress 10 100, DisplayFrame 16, LoadError ''404'', DisplayFrame 32, Resize example_window])) \<noteq> None \<and>
   (\<exists>st'. step (LoadError ''404'') (on_load example_gltf (initial_page example_window)) = Inr st' \<and>
      model st' = Some 1 \<and> model_writes st' = 2)"
proof -
  have h: "\<forall>e \<in> set [LoadProgress 10 100, DisplayFrame 16]. \<not> terminal e"
    "terminal (LoadError ''404'')"
    "\<forall>e \<in> set [DisplayFrame 32, Resize example_window]. \<not> terminal e"
    by (simp_all add: terminal_def)
  have n: "next_addr (on_load example_gltf (initial_page example_window)) = 1"
    "model_writes (on_load example_gltf (initial_page example_window)) = 1"
    by (simp_all add: on_load_def initial_page_def Let_def)
  note inst = model_written_by_loader [OF h, where win = example_window and doc = example_document
      and ?t0.0 = 0 and evs = "[]" and ev = "LoadError ''404''"
      and st = "on_load example_gltf (initial_page example_window)"]
  from inst h(2) n have again:
    "\<exists>st'. step (LoadError ''404'') (on_load example_gltf (initial_page example_window)) = Inr st' \<and>
      model st' = Some 1 \<and> model_writes st' = 2"
    by (auto simp add: numeral_2_eq_2)
  from inst
  have "\<exists>s1 s3.
    page_after example_window example_document 0 [LoadProgress 10 100, DisplayFrame 16] = Inr s1 \<and>
    model s1 = None \<and>
    page_after example_window example_document 0
       [LoadProgress 10 100, DisplayFrame 16, LoadError ''404'', DisplayFrame 32, Resize example_window] = Inr s3 \<and>
    model s3 \<noteq> None \<and> model_writes s3 = 1"
    by (elim conjE exE) simp
  with again show ?thesis by (auto simp add: terminal_def)
qed


section \<open>The rotation retry\<close>

text \<open>
  Claim C2. On every page the script and any events can reach: there is at most one scroll-driven
  rotation; while the reference is null \<^verbatim>\<open>rotateModel\<close> queues itself again and exactly one
  retry waits, before and after a display frame; once the reference is set, the next display
  frame attaches the rotation to the model and after it, whatever happens later, there is
  exactly one rotation and no retry; the rotation goes to \<open>z = \<pi> / 2\<close> and is scrubbed by
  the trigger of the hero timeline, without the pin.
\<close>

theorem rotateModel_retry:
  assumes "page_after win doc t0 evs = Inr st"
  shows "length (attachments st) \<le> 1 \<and>
    (model st = None \<longrightarrow>
       rotateModel st = st\<lparr>raf_queue := raf_queue st @ [RotateModel]\<rparr> \<and>
       waiting st = 1 \<and> attachments st = [] \<and>
       (\<exists>st'. display_frame now st = Inr st' \<and> model st' = None \<and> waiting st' = 1 \<and> attachments st' = [])) \<and>
    (model st = Some a \<and> attachments st = [] \<longrightarrow>
       (\<exists>st'. display_frame now st = Inr st' \<and> attachments st' = [scroll_rotation a])) \<and>
    (model st \<noteq> None \<longrightarrow>
       (\<exists>st'. run_events (DisplayFrame now # later) st = Inr st' \<and> waiting st' = 0 \<and>
          (\<exists>b. attachments st' = [scroll_rotation b]))) \<and>
    tw_method (scroll_rotation b) = To \<and>
    tw_target (scroll_rotation b) = RotationOf b \<and>
    vars (scroll_rotation b) = [(''z'', N (pi / 2))] \<and>
    scrollTrigger (scroll_rotation b) = Some (hero_trigger\<lparr>st_pin := False\<rparr>) \<and>
    tl_scrollTrigger hero_timeline = Some hero_trigger"
proof -
  note inv = page_after_inv [OF assms]
  from inv(2) have sum: "waiting st + length (attachments st) = 1"
    and null: "model st = None \<longrightarrow> attachments st = []"
    by (simp_all add: retry_inv_def)
  from sum have le: "length (attachments st) \<le> 1" by simp
  obtain s1 where s1: "display_frame now st = Inr s1" "well_formed s1"
    using display_frame_well_formed [OF inv(1), of now] by blast
  note eff = display_frame_effect [OF s1(1)]
  have step1: "step (DisplayFrame now) st = Inr s1" using s1(1) by (simp add: step_def)
  have inv1: "retry_inv s1" by (rule retry_inv_step [OF inv(2) step1])
  have a: "model st = None \<longrightarrow>
       rotateModel st = st\<lparr>raf_queue := raf_queue st @ [RotateModel]\<rparr> \<and>
       waiting st = 1 \<and> attachments st = [] \<and>
       (\<exists>st'. display_frame now st = Inr st' \<and> model st' = None \<and> waiting st' = 1 \<and> attachments st' = [])"
  proof
    assume n: "model st = None"
    with null sum have w: "waiting st = 1" "attachments st = []" by simp_all
    from n have "rotateModel st = st\<lparr>raf_queue := raf_queue st @ [RotateModel]\<rparr>"
      by (simp add: rotateModel_def)
    moreover from eff n w have "model s1 = None \<and> waiting s1 = 1 \<and> attachments s1 = []" by simp
    ultimately show "rotateModel st = st\<lparr>raf_queue := raf_queue st @ [RotateModel]\<rparr> \<and>
       waiting st = 1 \<and> attachments st = [] \<and>
       (\<exists>st'. display_frame now st = Inr st' \<and> model st' = None \<and> waiting st' = 1 \<and> attachments st' = [])"
      using w s1(1) by simp
  qed
  have b: "model st = Some a \<and> attachments st = [] \<longrightarrow>
       (\<exists>st'. display_frame now st = Inr st' \<and> attachments st' = [scroll_rotation a])"
  proof
    assume h: "model st = Some a \<and> attachments st = []"
    with sum have "waiting st = 1" by simp
    with eff h have "attachments s1 = [scroll_rotation a]" by simp
    with s1(1) show "\<exists>st'. display_frame now st = Inr st' \<and> attachments st' = [scroll_rotation a]"
      by simp
  qed
  have c: "model st \<noteq> None \<longrightarrow>
       (\<exists>st'. run_events (DisplayFrame now # later) st = Inr st' \<and> waiting st' = 0 \<and>
          (\<exists>b. attachments st' = [scroll_rotation b]))"
  proof
    assume m: "model st \<noteq> None"
    with eff have set1: "settled s1" by (auto simp add: settled_def)
    obtain s2 where s2: "run_events later s1 = Inr s2"
      using run_events_well_formed [OF s1(2), of later] by blast
    have run: "run_events (DisplayFrame now # later) st = Inr s2" using step1 s2 by simp
    from settled_run [OF set1 s2] have w2: "waiting s2 = 0" by (simp add: settled_def)
    from retry_inv_run [OF inv1 s2] have "waiting s2 + length (attachments s2) = 1"
      and form: "\<forall>tw \<in> set (attachments s2). \<exists>a. tw = scroll_rotation a"
      by (simp_all add: retry_inv_def)
    with w2 have "length (attachments s2) = 1" by simp
    then obtain tw where tw: "attachments s2 = [tw]" by (cases "attachments s2") auto
    with form obtain b where "tw = scroll_rotation b" by auto
    with tw run w2 show "\<exists>st'. run_events (DisplayFrame now # later) st = Inr st' \<and> waiting st' = 0 \<and>
          (\<exists>b. attachments st' = [scroll_rotation b])"
      by blast
  qed
  from le a b c scroll_rotation_target [of b] show ?thesis by blast
qed

theorem rotateModel_retry_witness:
  "page_after example_window example_document 0 [] =
     Inr (projr (page_after example_window example_document 0 [])) \<and>
   model (projr (page_after example_window example_document 0 [])) = None \<and>
   waiting (projr (page_after example_window example_document 0 [])) = 1 \<and>
   page_after example_window example_document 0 [LoadError ''404''] =
     Inr (projr (page_after example_window example_document 0 [LoadError ''404''])) \<and>
   model (projr (page_after example_window example_document 0 [LoadError ''404''])) = Some 0 \<and>
   attachments (projr (page_after example_window example_document 0 [LoadError ''404''])) = [] \<and>
   (\<exists>st'. display_frame 16 (projr (page_after example_window example_document 0 [LoadError ''404''])) = Inr st' \<and>
      attachments st' = [scroll_rotation 0]) \<and>
   (\<exists>st'. run_events [DisplayFrame 16, DisplayFrame 32]
        (projr (page_after example_window example_document 0 [LoadError ''404''])) = Inr st' \<and>
      waiting st' = 0 \<and> (\<exists>b. attachments st' = [scroll_rotation b]))"
proof -
  let ?p0 = "projr (page_after example_window example_document 0 [])"
  let ?p1 = "projr (page_after example_window example_document 0 [LoadError ''404''])"
  note r0 = page_after_projr [of example_window example_document 0 "[]"]
  note r1 = page_after_projr [of example_window example_document 0 "[LoadError ''404'']"]
  have m0: "model ?p0 = None"
    by (simp add: page_after_def script_value matchMedia_def render_def initial_page_def Let_def)
  have m1: "model ?p1 = Some 0"
    by (simp add: page_after_def script_value matchMedia_def step_def on_error_def render_def
          initial_page_def Let_def)
  from rotateModel_retry [OF r0, where now = 16 and a = 0 and b = 0 and later = "[]"] m0
  have w0: "waiting ?p0 = 1" by simp
  from rotateModel_retry [OF r1, where now = 16 and a = 0 and b = 0 and later = "[DisplayFrame 32]"] m1
  have f: "length (attachments ?p1) \<le> 1"
    "attachments ?p1 = [] \<longrightarrow> (\<exists>st'. display_frame 16 ?p1 = Inr st' \<and> attachments st' = [scroll_rotation 0])"
    "\<exists>st'. run_events [DisplayFrame 16, DisplayFrame 32] ?p1 = Inr st' \<and> waiting st' = 0 \<and>
       (\<exists>b. attachments st' = [scroll_rotation b])"
    by simp_all
  have a1: "attachments ?p1 = []"
    by (simp add: page_after_def script_value step_def on_error_def render_def initial_page_def Let_def
          attachments_def matchMedia_def)
  from r0 r1 m0 m1 w0 a1 f show ?thesis by blast
qed


section \<open>The loader's success callback\<close>

text \<open>
  Claim C3. The success callback computes the bounding box of the asset, which for an asset
  with a vertex runs, along each axis, from the least to the greatest coordinate of its
  vertices in world space; it moves the asset by the centre of that box, so that afterwards the
  least and the greatest coordinate are opposite along each axis and the centre of the box is
  the origin, whatever the position, rotation and vertices were (an asset without a vertex is
  not moved; a rotation by no angle leaves a vertex where it is, and a quarter turn about an
  axis takes the next axis to the one after it); it stores the asset as the shared reference, appends it to the scene, and starts
  a tween of its rotation to \<open>y = 2\<pi>\<close> that lasts 20 time units, repeats for ever
  (\<^verbatim>\<open>repeat: -1\<close>) and has no easing (\<^verbatim>\<open>ease: "none"\<close>).
\<close>

theorem on_load_centres:
  "step (LoadSuccess g) st = Inr (on_load g st) \<and>
   model (on_load g st) = Some (next_addr st) \<and>
   (\<exists>ob. objs (on_load g st) (next_addr st) = Some (Group ob) \<and>
         vertices ob = vertices (scene g) \<and>
         rotation ob = rotation (scene g) \<and>
         position ob = vsub (position (scene g)) (getCenter (setFromObject (scene g))) \<and>
         getCenter (setFromObject ob) = Vector3 0 0 0 \<and>
         (vertices (scene g) \<noteq> [] \<longrightarrow>
            setFromObject (scene g) =
              Box (Vector3 (world_min vx (scene g)) (world_min vy (scene g)) (world_min vz (scene g)))
                  (Vector3 (world_max vx (scene g)) (world_max vy (scene g)) (world_max vz (scene g))) \<and>
            position ob =
              Vector3 (vx (position (scene g)) - (world_min vx (scene g) + world_max vx (scene g)) / 2)
                      (vy (position (scene g)) - (world_min vy (scene g) + world_max vy (scene g)) / 2)
                      (vz (position (scene g)) - (world_min vz (scene g) + world_max vz (scene g)) / 2) \<and>
            world_min vx ob + world_max vx ob = 0 \<and>
            world_min vy ob + world_max vy ob = 0 \<and>
            world_min vz ob + world_max vz ob = 0) \<and>
         (vertices (scene g) = [] \<longrightarrow> position ob = position (scene g))) \<and>
   applyEuler (Vector3 0 0 0) v = v \<and>
   applyEuler (Vector3 (pi / 2) 0 0) (Vector3 0 1 0) = Vector3 0 0 1 \<and>
   applyEuler (Vector3 0 (pi / 2) 0) (Vector3 0 0 1) = Vector3 1 0 0 \<and>
   applyEuler (Vector3 0 0 (pi / 2)) (Vector3 1 0 0) = Vector3 0 1 0 \<and>
   scene_children (on_load g st) = scene_children st @ [ObjectNode (next_addr st)] \<and>
   tweens (on_load g st) = tweens st @ [idle_rotation (next_addr st)] \<and>
   tw_method (idle_rotation (next_addr st)) = To \<and>
   tw_target (idle_rotation (next_addr st)) = RotationOf (next_addr st) \<and>
   scrollTrigger (idle_rotation (next_addr st)) = None \<and>
   map_of (vars (idle_rotation (next_addr st))) ''y'' = Some (N (2 * pi)) \<and>
   map_of (vars (idle_rotation (next_addr st))) ''duration'' = Some (N 20) \<and>
   map_of (vars (idle_rotation (next_addr st))) ''repeat'' = Some (N (- 1)) \<and>
   map_of (vars (idle_rotation (next_addr st))) ''ease'' = Some (S ''none'')"
proof -
  let ?p = "position (scene g)"
  let ?c = "getCenter (setFromObject (scene g))"
  let ?ob = "(scene g)\<lparr>position := vsub ?p ?c\<rparr>"
  have stored: "objs (on_load g st) (next_addr st) = Some (Group ?ob)"
    by (simp add: on_load_def Let_def)
  have centre: "getCenter (setFromObject ?ob) = Vector3 0 0 0" by (rule centred_center)
  have full: "vertices (scene g) \<noteq> [] \<longrightarrow>
      setFromObject (scene g) =
        Box (Vector3 (world_min vx (scene g)) (world_min vy (scene g)) (world_min vz (scene g)))
            (Vector3 (world_max vx (scene g)) (world_max vy (scene g)) (world_max vz (scene g))) \<and>
      position ?ob =
        Vector3 (vx ?p - (world_min vx (scene g) + world_max vx (scene g)) / 2)
                (vy ?p - (world_min vy (scene g) + world_max vy (scene g)) / 2)
                (vz ?p - (world_min vz (scene g) + world_max vz (scene g)) / 2) \<and>
      world_min vx ?ob + world_max vx ?ob = 0 \<and>
      world_min vy ?ob + world_max vy ?ob = 0 \<and>
      world_min vz ?ob + world_max vz ?ob = 0"
  proof
    assume v: "vertices (scene g) \<noteq> []"
    then have v': "vertices ?ob \<noteq> []" by simp
    from getCenter_min_max [OF v'] centre
    have sym: "world_min vx ?ob + world_max vx ?ob = 0"
      "world_min vy ?ob + world_max vy ?ob = 0"
      "world_min vz ?ob + world_max vz ?ob = 0"
      by simp_all
    have pos: "position ?ob =
        Vector3 (vx ?p - (world_min vx (scene g) + world_max vx (scene g)) / 2)
                (vy ?p - (world_min vy (scene g) + world_max vy (scene g)) / 2)
                (vz ?p - (world_min vz (scene g) + world_max vz (scene g)) / 2)"
      by (simp add: getCenter_min_max [OF v] vsub_def)
    from setFromObject_min_max [OF v] pos sym
    show "setFromObject (scene g) =
        Box (Vector3 (world_min vx (scene g)) (world_min vy (scene g)) (world_min vz (scene g)))
            (Vector3 (world_max vx (scene g)) (world_max vy (scene g)) (world_max vz (scene g))) \<and>
      position ?ob =
        Vector3 (vx ?p - (world_min vx (scene g) + world_max vx (scene g)) / 2)
                (vy ?p - (world_min vy (scene g) + world_max vy (scene g)) / 2)
                (vz ?p - (world_min vz (scene g) + world_max vz (scene g)) / 2) \<and>
      world_min vx ?ob + world_max vx ?ob = 0 \<and>
      world_min vy ?ob + world_max vy ?ob = 0 \<and>
      world_min vz ?ob + world_max vz ?ob = 0"
      by simp
  qed
  have empty: "vertices (scene g) = [] \<longrightarrow> position ?ob = ?p"
    by (simp add: setFromObject_def getCenter_def vsub_def)
  have ob: "\<exists>ob. objs (on_load g st) (next_addr st) = Some (Group ob) \<and>
         vertices ob = vertices (scene g) \<and>
         rotation ob = rotation (scene g) \<and>
         position ob = vsub ?p ?c \<and>
         getCenter (setFromObject ob) = Vector3 0 0 0 \<and>
         (vertices (scene g) \<noteq> [] \<longrightarrow>
            setFromObject (scene g) =
              Box (Vector3 (world_min vx (scene g)) (world_min vy (scene g)) (world_min vz (scene g)))
                  (Vector3 (world_max vx (scene g)) (world_max vy (scene g)) (world_max vz (scene g))) \<and>
            position ob =
              Vector3 (vx ?p - (world_min vx (scene g) + world_max vx (scene g)) / 2)
                      (vy ?p - (world_min vy (scene g) + world_max vy (scene g)) / 2)
                      (vz ?p - (world_min vz (scene g) + world_max vz (scene g)) / 2) \<and>
            world_min vx ob + world_max vx ob = 0 \<and>
            world_min vy ob + world_max vy ob = 0 \<and>
            world_min vz ob + world_max vz ob = 0) \<and>
         (vertices (scene g) = [] \<longrightarrow> position ob = ?p)"
  proof (intro exI [where x = ?ob] conjI)
    show "objs (on_load g st) (next_addr st) = Some (Group ?ob)" by (rule stored)
    show "vertices ?ob = vertices (scene g)" by simp
    show "rotation ?ob = rotation (scene g)" by simp
    show "position ?ob = vsub ?p ?c" by simp
    show "getCenter (setFromObject ?ob) = Vector3 0 0 0" by (rule centre)
    show "vertices (scene g) \<noteq> [] \<longrightarrow>
            setFromObject (scene g) =
              Box (Vector3 (world_min vx (scene g)) (world_min vy (scene g)) (world_min vz (scene g)))
                  (Vector3 (world_max vx (scene g)) (world_max vy (scene g)) (world_max vz (scene g))) \<and>
            position ?ob =
              Vector3 (vx ?p - (world_min vx (scene g) + world_max vx (scene g)) / 2)
                      (vy ?p - (world_min vy (scene g) + world_max vy (scene g)) / 2)
                      (vz ?p - (world_min vz (scene g) + world_max vz (scene g)) / 2) \<and>
            world_min vx ?ob + world_max vx ?ob = 0 \<and>
            world_min vy ?ob + world_max vy ?ob = 0 \<and>
            world_min vz ?ob + world_max vz ?ob = 0"
      by (rule full)
    show "vertices (scene g) = [] \<longrightarrow> position ?ob = ?p" by (rule empty)
  qed
  have rest: "step (LoadSuccess g) st = Inr (on_load g st)"
    "model (on_load g st) = Some (next_addr st)"
    "scene_children (on_load g st) = scene_children st @ [ObjectNode (next_addr st)]"
    "tweens (on_load g st) = tweens st @ [idle_rotation (next_addr st)]"
    "tw_method (idle_rotation (next_addr st)) = To"
    "tw_target (idle_rotation (next_addr st)) = RotationOf (next_addr st)"
    "scrollTrigger (idle_rotation (next_addr st)) = None"
    "map_of (vars (idle_rotation (next_addr st))) ''y'' = Some (N (2 * pi))"
    "map_of (vars (idle_rotation (next_addr st))) ''duration'' = Some (N 20)"
    "map_of (vars (idle_rotation (next_addr st))) ''repeat'' = Some (N (- 1))"
    "map_of (vars (idle_rotation (next_addr st))) ''ease'' = Some (S ''none'')"
    by (simp_all add: step_def on_load_def Let_def idle_rotation_def)
  have turn: "applyEuler (Vector3 0 0 0) v = v"
    "applyEuler (Vector3 (pi / 2) 0 0) (Vector3 0 1 0) = Vector3 0 0 1"
    "applyEuler (Vector3 0 (pi / 2) 0) (Vector3 0 0 1) = Vector3 1 0 0"
    "applyEuler (Vector3 0 0 (pi / 2)) (Vector3 1 0 0) = Vector3 0 1 0"
    by (simp_all add: applyEuler_def Let_def)
  from ob rest turn show ?thesis by blast
qed

theorem on_load_centres_witness:
  "vertices (scene example_turned) \<noteq> [] \<and>
   setFromObject (scene example_turned) = Box (Vector3 1 1 0) (Vector3 1 3 0) \<and>
   objs (on_load example_turned (initial_page example_window)) 0 =
     Some (Group \<lparr>position = Vector3 0 (- 2) 0, rotation = Vector3 0 0 (pi / 2),
                   vertices = [Vector3 1 0 0, Vector3 3 0 0]\<rparr>) \<and>
   world_min vy \<lparr>position = Vector3 0 (- 2) 0, rotation = Vector3 0 0 (pi / 2),
                 vertices = [Vector3 1 0 0, Vector3 3 0 0]\<rparr> = - 1 \<and>
   world_max vy \<lparr>position = Vector3 0 (- 2) 0, rotation = Vector3 0 0 (pi / 2),
                 vertices = [Vector3 1 0 0, Vector3 3 0 0]\<rparr> = 1 \<and>
   vertices (scene \<lparr>scene = \<lparr>position = Vector3 1 2 3, rotation = Vector3 0 0 0, vertices = []\<rparr>\<rparr>) = [] \<and>
   objs (on_load \<lparr>scene = \<lparr>position = Vector3 1 2 3, rotation = Vector3 0 0 0, vertices = []\<rparr>\<rparr>
          (initial_page example_window)) 0 =
     Some (Group \<lparr>position = Vector3 1 2 3, rotation = Vector3 0 0 0, vertices = []\<rparr>)"
proof -
  let ?g = "\<lparr>position = Vector3 0 (- 2) 0, rotation = Vector3 0 0 (pi / 2),
             vertices = [Vector3 1 0 0, Vector3 3 0 0]\<rparr>"
  have e: "applyEuler (Vector3 0 0 (pi / 2)) (Vector3 1 0 0) = Vector3 0 1 0"
    "applyEuler (Vector3 0 0 (pi / 2)) (Vector3 3 0 0) = Vector3 0 3 0"
    by (simp_all add: applyEuler_def Let_def)
  have v: "vertices (scene example_turned) \<noteq> []" by (simp add: example_turned_def)
  have f: "position (scene example_turned) = Vector3 1 0 0"
    "rotation (scene example_turned) = Vector3 0 0 (pi / 2)"
    "vertices (scene example_turned) = [Vector3 1 0 0, Vector3 3 0 0]"
    by (simp_all add: example_turned_def)
  have w: "world_min vx (scene example_turned) = 1" "world_max vx (scene example_turned) = 1"
    "world_min vy (scene example_turned) = 1" "world_max vy (scene example_turned) = 3"
    "world_min vz (scene example_turned) = 0" "world_max vz (scene example_turned) = 0"
    by (simp_all add: world_min_def world_max_def f e)
  have n: "next_addr (initial_page example_window) = 0" by (simp add: initial_page_def Let_def)
  from on_load_centres [where g = example_turned and st = "initial_page example_window"
      and v = "Vector3 1 0 0"] v
  obtain ob where ob: "objs (on_load example_turned (initial_page example_window)) 0 = Some (Group ob)"
    "vertices ob = [Vector3 1 0 0, Vector3 3 0 0]" "rotation ob = Vector3 0 0 (pi / 2)"
    "position ob = Vector3 0 (- 2) 0"
    "setFromObject (scene example_turned) = Box (Vector3 1 1 0) (Vector3 1 3 0)"
    "world_min vy ob + world_max vy ob = 0"
    unfolding n w f by auto
  from ob(2-4) have eq: "ob = ?g" by (cases ob) simp
  have "world_min vy ?g = - 1" "world_max vy ?g = 1"
    by (simp_all add: world_min_def world_max_def e)
  with v ob(1,5) eq have turned:
    "vertices (scene example_turned) \<noteq> [] \<and>
     setFromObject (scene example_turned) = Box (Vector3 1 1 0) (Vector3 1 3 0) \<and>
     objs (on_load example_turned (initial_page example_window)) 0 = Some (Group ?g) \<and>
     world_min vy ?g = - 1 \<and> world_max vy ?g = 1"
    by simp
  let ?e = "\<lparr>position = Vector3 1 2 3, rotation = Vector3 0 0 0, vertices = []\<rparr>"
  from on_load_centres [where g = "\<lparr>scene = ?e\<rparr>" and st = "initial_page example_window"
      and v = "Vector3 1 0 0"]
  obtain ob' where ob': "objs (on_load \<lparr>scene = ?e\<rparr> (initial_page example_window)) 0 = Some (Group ob')"
    "vertices ob' = []" "rotation ob' = Vector3 0 0 0" "position ob' = Vector3 1 2 3"
    unfolding n by auto
  from ob'(2-4) have "ob' = ?e" by (cases ob') simp
  with ob'(1) turned show ?thesis by simp
qed


section \<open>The loader's error callback\<close>

text \<open>
  Claim C4. The error callback builds the fallback mesh, an icosahedron of radius 1.5 with a
  fixed wireframe material, appends it to the scene and makes it the shared reference; the mesh
  is the same for every error and every page.
\<close>

theorem on_error_fallback:
  "step (LoadError err) st = Inr (on_error err st) \<and>
   model (on_error err st) = Some (next_addr st) \<and>
   objs (on_error err st) (next_addr st) = Some (Mesh fallback_mesh) \<and>
   scene_children (on_error err st) = scene_children st @ [ObjectNode (next_addr st)] \<and>
   geometry fallback_mesh = IcosahedronGeometry 1.5 0 \<and>
   material fallback_mesh = \<lparr>color = 0x111111, roughness = 0.3, metalness = 0.8, wireframe = True\<rparr> \<and>
   wireframe (material fallback_mesh) \<and>
   objs (on_error err' st') (next_addr st') = objs (on_error err st) (next_addr st)"
  by (simp add: step_def on_error_def Let_def fallback_mesh_def)


section \<open>Resizing\<close>

text \<open>
  Claim C5. After the resize handler the camera's aspect is the quotient of the new width and
  height, the projection is computed from it, the renderer has the new size and its pixel ratio
  is the smaller of the device pixel ratio and 2.
\<close>

theorem resize_updates:
  "step (Resize win) st = Inr (resize win st) \<and>
   sizes_width (resize win st) = innerWidth win \<and>
   sizes_height (resize win st) = innerHeight win \<and>
   aspect (camera (resize win st)) = js_div (innerWidth win) (innerHeight win) \<and>
   (0 < innerHeight win \<longrightarrow>
      aspect (camera (resize win st)) = JsNum (real (innerWidth win) / real (innerHeight win))) \<and>
   projection (camera (resize win st)) =
     (fov (camera st), aspect (camera (resize win st)), near (camera st), far (camera st)) \<and>
   r_size (renderer (resize win st)) = (innerWidth win, innerHeight win) \<and>
   pixelRatio (renderer (resize win st)) = min (devicePixelRatio win) 2 \<and>
   pixelRatio (renderer (resize win st)) \<le> 2"
  by (simp add: step_def resize_def Let_def updateProjectionMatrix_def setSize_def
        setPixelRatio_def js_div_def)

theorem resize_updates_witness:
  "0 < innerHeight example_window \<and>
   aspect (camera (resize example_window (initial_page \<lparr>innerWidth = 800, innerHeight = 600, devicePixelRatio = 1\<rparr>)))
     = JsNum (3 / 2) \<and>
   r_size (renderer (resize example_window (initial_page \<lparr>innerWidth = 800, innerHeight = 600, devicePixelRatio = 1\<rparr>)))
     = (1200, 800) \<and>
   pixelRatio (renderer (resize example_window (initial_page \<lparr>innerWidth = 800, innerHeight = 600, devicePixelRatio = 1\<rparr>)))
     = 2"
  using resize_updates [of example_window "initial_page \<lparr>innerWidth = 800, innerHeight = 600, devicePixelRatio = 1\<rparr>"]
  by (simp add: example_window_def js_div_def)


section \<open>The render loop\<close>



text \<open>
  Claim C10, as stated, on the asset at the origin with vertices 1 and 3 above it, so that its
  original centre is at height 2: after the load, a step of the idle rotation and one tick, the
  centre of the bounding box is 2 above the sinusoid offset of that tick.
\<close>

theorem float_centre_counterexample:
  "\<not> isl (page_after example_window example_document 0
       [LoadSuccess example_gltf, TweenRender 1 [(''y'', pi / 2)], DisplayFrame 1700000000000]) \<and>
   vy (getCenter (setFromObject (scene example_gltf))) = 2 \<and>
   model (projr (page_after example_window example_document 0
       [LoadSuccess example_gltf, TweenRender 1 [(''y'', pi / 2)], DisplayFrame 1700000000000])) = Some 0 \<and>
   objs (projr (page_after example_window example_document 0
       [LoadSuccess example_gltf, TweenRender 1 [(''y'', pi / 2)], DisplayFrame 1700000000000])) 0 =
     Some (Group \<lparr>position = Vector3 0 (float_offset 1700000000000) 0,
                   rotation = Vector3 0 (pi / 2) 0,
                   vertices = [Vector3 0 1 0, Vector3 0 3 0]\<rparr>) \<and>
   vy (getCenter (setFromObject
         \<lparr>position = Vector3 0 (float_offset 1700000000000) 0,
          rotation = Vector3 0 (pi / 2) 0,
          vertices = [Vector3 0 1 0, Vector3 0 3 0]\<rparr>)) = float_offset 1700000000000 + 2 \<and>
   vy (getCenter (setFromObject
         \<lparr>position = Vector3 0 (float_offset 1700000000000) 0,
          rotation = Vector3 0 (pi / 2) 0,
          vertices = [Vector3 0 1 0, Vector3 0 3 0]\<rparr>)) \<noteq> float_offset 1700000000000"
proof -
  let ?T = "[LoadSuccess example_gltf, TweenRender 1 [(''y'', pi / 2)], DisplayFrame 1700000000000]"
  let ?g = "\<lparr>position = Vector3 0 (float_offset 1700000000000) 0,
             rotation = Vector3 0 (pi / 2) 0,
             vertices = [Vector3 0 1 0, Vector3 0 3 0]\<rparr>"
  have c0: "vy (getCenter (setFromObject (scene example_gltf))) = 2"
    by (simp add: example_gltf_def setFromObject_def applyMatrix4_def applyEuler_def getCenter_def
          expandByPoint_def vadd_def vmin_def vmax_def multiplyScalar_def Let_def)
  have c0': "getCenter (setFromObject (scene example_gltf)) = Vector3 0 2 0"
    by (simp add: example_gltf_def setFromObject_def applyMatrix4_def applyEuler_def getCenter_def
          expandByPoint_def vadd_def vmin_def vmax_def multiplyScalar_def Let_def)
  have gl: "position (scene example_gltf) = Vector3 0 0 0" "rotation (scene example_gltf) = Vector3 0 0 0"
    "vertices (scene example_gltf) = [Vector3 0 1 0, Vector3 0 3 0]"
    by (simp_all add: example_gltf_def)
  have run: "page_after example_window example_document 0 ?T =
      Inr (projr (page_after example_window example_document 0 ?T))"
    by (rule page_after_projr)
  then have ok: "\<not> isl (page_after example_window example_document 0 ?T)"
    by (metis sum.disc(2))
  have st: "model (projr (page_after example_window example_document 0 ?T)) = Some 0 \<and>
      objs (projr (page_after example_window example_document 0 ?T)) 0 = Some (Group ?g)"
    by (simp add: page_after_def script_value matchMedia_def step_def on_load_def render_tween_def
          display_frame_def run_callback_def animate_def rotateModel_def render_def initial_page_def
          idle_rotation_def animated_def write_axis_def object_rotation_def set_rotation_def
          set_position_y_def c0' gl vsub_def Let_def)
  have c1: "vy (getCenter (setFromObject ?g)) = float_offset 1700000000000 + 2"
    by (simp add: setFromObject_def applyMatrix4_def applyEuler_def getCenter_def
          expandByPoint_def vadd_def vmin_def vmax_def multiplyScalar_def Let_def)
  from ok c0 st c1 show ?thesis by simp
qed

text \<open>
  Claim C10, amended. A tick with the reference set overwrites the object's height with the
  sinusoid offset, which is within 0.1 of zero. So on any trace, once the asset is loaded and a
  display frame has passed, and as long as the loader reports no further outcome, the height of
  the model is the sinusoid offset of the last frame and no longer the centred height, the
  asset's original height less the height of its original centre, that the success callback
  gave it.
\<close>

theorem float_overrides_centring:
  assumes "\<forall>e \<in> set mid. \<not> terminal e" and "\<forall>e \<in> set rest. \<not> terminal e"
  shows "(\<exists>s0 s1 s2 ob1 ob2.
       page_after win doc t0 evs = Inr s0 \<and>
       page_after win doc t0 (evs @ [LoadSuccess g]) = Inr s1 \<and>
       model s1 = Some (next_addr s0) \<and> objs s1 (next_addr s0) = Some ob1 \<and>
       vy (object_position ob1) =
         vy (position (scene g)) - vy (getCenter (setFromObject (scene g))) \<and>
       page_after win doc t0 (evs @ LoadSuccess g # mid @ DisplayFrame now # rest) = Inr s2 \<and>
       model s2 = Some (next_addr s0) \<and> objs s2 (next_addr s0) = Some ob2 \<and>
       vy (object_position ob2) = float_offset (real_of_int (last_frame rest now)) \<and>
       \<bar>vy (object_position ob2)\<bar> \<le> 0.1) \<and>
    (model st = Some a \<and> objs st a = Some ob \<longrightarrow>
       (\<exists>st'. animate now st = Inr st' \<and>
          objs st' a = Some (set_position_y (float_offset (real_of_int now)) ob) \<and>
          vy (object_position (set_position_y (float_offset (real_of_int now)) ob)) =
            float_offset (real_of_int now))) \<and>
    \<bar>float_offset (real_of_int now)\<bar> \<le> 0.1"
proof -
  obtain s0 where s0: "page_after win doc t0 evs = Inr s0" "well_formed s0"
    using page_after_total [of win doc t0 evs] by blast
  let ?a = "next_addr s0"
  let ?s1 = "on_load g s0"
  let ?ob1 = "Group ((scene g)\<lparr>position :=
      vsub (position (scene g)) (getCenter (setFromObject (scene g)))\<rparr>)"
  have r1: "page_after win doc t0 (evs @ [LoadSuccess g]) = Inr ?s1"
    using s0(1) by (simp add: page_after_append step_def)
  have m1: "model ?s1 = Some ?a" and o1: "objs ?s1 ?a = Some ?ob1"
    by (simp_all add: on_load_def Let_def)
  have y1: "vy (object_position ?ob1) =
      vy (position (scene g)) - vy (getCenter (setFromObject (scene g)))"
    by (simp add: object_position_def vsub_def)
  have ref1: "refers ?a ?s1" using m1 o1 by (simp add: refers_def)
  have tick1: "ticking ?s1" by (rule page_after_ticking [OF r1])
  from refers_run [OF ref1 tick1 assms(1)]
  obtain sm where sm: "run_events mid ?s1 = Inr sm" "refers ?a sm" "ticking sm" by blast
  from frame_floats [OF sm(2,3), of now]
  obtain sf where sf: "display_frame now sm = Inr sf" "floated ?a now sf" "ticking sf" by blast
  from floated_run [OF sf(2,3) assms(2)]
  obtain s2 where s2: "run_events rest sf = Inr s2" "floated ?a (last_frame rest now) s2" by blast
  have "run_events (mid @ DisplayFrame now # rest) ?s1 = Inr s2"
    using sm(1) sf(1) s2(1) by (simp add: run_events_append step_def)
  with s0(1) have r2: "page_after win doc t0 (evs @ LoadSuccess g # mid @ DisplayFrame now # rest) = Inr s2"
    by (simp add: page_after_append step_def)
  from s2(2) obtain ob2 where ob2: "model s2 = Some ?a" "objs s2 ?a = Some ob2"
    "vy (object_position ob2) = float_offset (real_of_int (last_frame rest now))"
    by (auto simp add: floated_def split: option.splits)
  from ob2(3) float_offset_bound [of "real_of_int (last_frame rest now)"]
  have b2: "\<bar>vy (object_position ob2)\<bar> \<le> 0.1" by simp
  have trace: "\<exists>s0 s1 s2 ob1 ob2.
       page_after win doc t0 evs = Inr s0 \<and>
       page_after win doc t0 (evs @ [LoadSuccess g]) = Inr s1 \<and>
       model s1 = Some (next_addr s0) \<and> objs s1 (next_addr s0) = Some ob1 \<and>
       vy (object_position ob1) =
         vy (position (scene g)) - vy (getCenter (setFromObject (scene g))) \<and>
       page_after win doc t0 (evs @ LoadSuccess g # mid @ DisplayFrame now # rest) = Inr s2 \<and>
       model s2 = Some (next_addr s0) \<and> objs s2 (next_addr s0) = Some ob2 \<and>
       vy (object_position ob2) = float_offset (real_of_int (last_frame rest now)) \<and>
       \<bar>vy (object_position ob2)\<bar> \<le> 0.1"
    using s0(1) r1 m1 o1 y1 r2 ob2 b2 by blast
  have tick: "model st = Some a \<and> objs st a = Some ob \<longrightarrow>
       (\<exists>st'. animate now st = Inr st' \<and>
          objs st' a = Some (set_position_y (float_offset (real_of_int now)) ob) \<and>
          vy (object_position (set_position_y (float_offset (real_of_int now)) ob)) =
            float_offset (real_of_int now))"
  proof
    assume "model st = Some a \<and> objs st a = Some ob"
    then have "model st = Some a" "objs st a = Some ob" by simp_all
    from animate_floated [OF this, of now]
    show "\<exists>st'. animate now st = Inr st' \<and>
          objs st' a = Some (set_position_y (float_offset (real_of_int now)) ob) \<and>
          vy (object_position (set_position_y (float_offset (real_of_int now)) ob)) =
            float_offset (real_of_int now)"
      by (auto simp add: position_y_set)
  qed
  from trace tick float_offset_bound [of "real_of_int now"] show ?thesis by blast
qed

theorem float_overrides_centring_witness:
  "\<not> terminal (TweenRender 1 [(''y'', 1)]) \<and>
   \<not> terminal (Resize example_window) \<and>
   model (on_load example_gltf (initial_page example_window)) = Some 0 \<and>
   objs (on_load example_gltf (initial_page example_window)) 0 =
     Some (Group \<lparr>position = Vector3 0 (- 2) 0, rotation = Vector3 0 0 0,
                   vertices = [Vector3 0 1 0, Vector3 0 3 0]\<rparr>) \<and>
   (\<exists>s2 ob2.
      page_after example_window example_document 0
        [LoadSuccess example_gltf, TweenRender 1 [(''y'', 1)], DisplayFrame 16, Resize example_window] = Inr s2 \<and>
      model s2 = Some 0 \<and> objs s2 0 = Some ob2 \<and>
      vy (object_position ob2) = float_offset 16 \<and> \<bar>vy (object_position ob2)\<bar> \<le> 0.1) \<and>
   (\<exists>st'. animate 16 (on_load example_gltf (initial_page example_window)) = Inr st' \<and>
      objs st' 0 = Some (Group \<lparr>position = Vector3 0 (float_offset 16) 0, rotation = Vector3 0 0 0,
                                 vertices = [Vector3 0 1 0, Vector3 0 3 0]\<rparr>))"
proof -
  let ?s1 = "on_load example_gltf (initial_page example_window)"
  let ?g1 = "\<lparr>position = Vector3 0 (- 2) 0, rotation = Vector3 0 0 0,
              vertices = [Vector3 0 1 0, Vector3 0 3 0]\<rparr>"
  have c0: "getCenter (setFromObject (scene example_gltf)) = Vector3 0 2 0"
    by (simp add: example_gltf_def setFromObject_def applyMatrix4_def applyEuler_def getCenter_def
          expandByPoint_def vadd_def vmin_def vmax_def multiplyScalar_def Let_def)
  have gl: "position (scene example_gltf) = Vector3 0 0 0" "rotation (scene example_gltf) = Vector3 0 0 0"
    "vertices (scene example_gltf) = [Vector3 0 1 0, Vector3 0 3 0]"
    by (simp_all add: example_gltf_def)
  have m: "model ?s1 = Some 0" "objs ?s1 0 = Some (Group ?g1)"
    by (simp_all add: on_load_def Let_def initial_page_def example_gltf_def setFromObject_def
          applyMatrix4_def applyEuler_def getCenter_def expandByPoint_def vadd_def vsub_def vmin_def
          vmax_def multiplyScalar_def)
  have h: "\<forall>e \<in> set [TweenRender 1 [(''y'', 1)]]. \<not> terminal e"
    "\<forall>e \<in> set [Resize example_window]. \<not> terminal e"
    by (simp_all add: terminal_def)
  have n: "next_addr (projr (page_after example_window example_document 0 [])) = 0"
    by (simp add: page_after_def script_value matchMedia_def render_def initial_page_def Let_def)
  note inst = float_overrides_centring [OF h, where win = example_window and doc = example_document
      and ?t0.0 = 0 and evs = "[]" and g = example_gltf and now = 16 and st = ?s1 and a = 0
      and ob = "Group ?g1"]
  from inst obtain s0 s2 ob2 where
    t: "page_after example_window example_document 0 [] = Inr s0"
    "page_after example_window example_document 0
        ([] @ LoadSuccess example_gltf # [TweenRender 1 [(''y'', 1)]] @ DisplayFrame 16 # [Resize example_window]) = Inr s2"
    "model s2 = Some (next_addr s0)" "objs s2 (next_addr s0) = Some ob2"
    "vy (object_position ob2) = float_offset (real_of_int (last_frame [Resize example_window] 16))"
    "\<bar>vy (object_position ob2)\<bar> \<le> 0.1"
    by blast
  from t(1) n have z: "next_addr s0 = 0" by simp
  from t z have trace: "\<exists>s2 ob2.
      page_after example_window example_document 0
        [LoadSuccess example_gltf, TweenRender 1 [(''y'', 1)], DisplayFrame 16, Resize example_window] = Inr s2 \<and>
      model s2 = Some 0 \<and> objs s2 0 = Some ob2 \<and>
      vy (object_position ob2) = float_offset 16 \<and> \<bar>vy (object_position ob2)\<bar> \<le> 0.1"
    by auto
  from inst m have tick: "\<exists>st'. animate 16 ?s1 = Inr st' \<and>
      objs st' 0 = Some (Group \<lparr>position = Vector3 0 (float_offset 16) 0, rotation = Vector3 0 0 0,
                                 vertices = [Vector3 0 1 0, Vector3 0 3 0]\<rparr>)"
    by (auto simp add: set_position_y_def)
  from m trace tick show ?thesis by (simp add: terminal_def)
qed


section \<open>The responsive horizontal section\<close>


text \<open>
  With the wrapper and the section in the document, the script registers the horizontal scroll
  from 1024 pixels on and one reveal for every card up to 1023 pixels, and nothing in between;
  a later change of the width runs the function of a query that starts to match and drops what
  the function of a query that stops matching had created.
\<close>

lemma media_queries:
  assumes "script win doc t0 = Inr st"
    and "horizontal_wrapper doc = Some w" and "horizontal_section doc = Some hs"
  shows "(1024 \<le> media_width doc \<longrightarrow>
       desktop_tweens st = Some [horizontal_scroll w hs] \<and> mobile_tweens st = None) \<and>
    (media_width doc \<le> 1023 \<longrightarrow>
       desktop_tweens st = None \<and> mobile_tweens st = Some (map card_reveal (h_cards doc))) \<and>
    (1023 < media_width doc \<and> media_width doc < 1024 \<longrightarrow>
       desktop_tweens st = None \<and> mobile_tweens st = None)"
  using assms
  by (auto simp add: script_value matchMedia_def desktop_def mobile_def render_def initial_page_def Let_def)

lemma media_change:
  "desktop_tweens (matchMedia width cards st) =
     (if 1024 \<le> width
      then (case desktop_tweens st of None \<Rightarrow> Some (desktop st) | Some ts \<Rightarrow> Some ts) else None) \<and>
   mobile_tweens (matchMedia width cards st) =
     (if width \<le> 1023
      then (case mobile_tweens st of None \<Rightarrow> Some (map card_reveal cards) | Some ts \<Rightarrow> Some ts) else None) \<and>
   step (MediaChange width cards) st = Inr (matchMedia width cards st)"
  by (simp add: matchMedia_def mobile_def step_def split: option.splits)

text \<open>
  Claim C7 at a viewport 1023.5 pixels wide, below the breakpoint of 1024, with the wrapper, the
  section and two cards in the document: neither media query matches, so no reveal is registered
  for the cards, when the page loads at that width and when a page loaded at 800 pixels is
  resized to it.
\<close>

theorem media_query_gap:
  "media_width example_gap < 1024 \<and>
   horizontal_wrapper example_gap = Some 1 \<and>
   horizontal_section example_gap = Some 2 \<and>
   h_cards example_gap = [3, 4] \<and>
   \<not> isl (script example_window example_gap 0) \<and>
   desktop_tweens (projr (script example_window example_gap 0)) = None \<and>
   mobile_tweens (projr (script example_window example_gap 0)) = None \<and>
   mobile_tweens (projr (script example_window (example_document\<lparr>media_width := 800\<rparr>) 0)) =
     Some [card_reveal 3, card_reveal 4] \<and>
   mobile_tweens (matchMedia 1023.5 [3, 4]
     (projr (script example_window (example_document\<lparr>media_width := 800\<rparr>) 0))) = None \<and>
   desktop_tweens (matchMedia 1023.5 [3, 4]
     (projr (script example_window (example_document\<lparr>media_width := 800\<rparr>) 0))) = None"
  by (simp add: example_gap_def example_document_def script_value matchMedia_def mobile_def
        render_def initial_page_def Let_def)


section \<open>The hero timeline\<close>

text \<open>
  Claim C8. The hero timeline has four segments, all starting at the one label \<open>start\<close>, at
  time 0: lines 1 and 3 move to opposite \<open>x\<close> and fade out, line 2 scales up and fades out,
  the info block moves in \<open>y\<close> and fades out; its trigger is pinned and scrubbed with a
  smoothing of 1.
\<close>

theorem hero_timeline_segments:
  "labels hero_timeline = [(''start'', 0)] \<and>
   map fst (children hero_timeline) = [0, 0, 0, 0] \<and>
   map (\<lambda>c. (tw_method (snd c), tw_target (snd c), vars (snd c), scrollTrigger (snd c)))
       (children hero_timeline) =
     [(To, Selector ''.line-1'', [(''x'', S ''-150%''), (''opacity'', N 0), (''duration'', N 1)], None),
      (To, Selector ''.line-3'', [(''x'', S ''150%''), (''opacity'', N 0), (''duration'', N 1)], None),
      (To, Selector ''.line-2'',
         [(''scale'', N 15), (''opacity'', N 0), (''duration'', N 1.5), (''ease'', S ''power2.inOut'')], None),
      (To, Selector ''.hero-info'', [(''y'', N 100), (''opacity'', N 0), (''duration'', N 0.5)], None)] \<and>
   ''-150%'' = CHR ''-'' # ''150%'' \<and>
   tl_scrollTrigger hero_timeline = Some hero_trigger \<and>
   st_trigger hero_trigger = Selector ''.hero'' \<and>
   st_pin hero_trigger \<and>
   st_scrub hero_trigger = Some 1"
  by (simp add: hero_timeline_def timeline_to_def timeline_duration_def hero_trigger_def Let_def)


section \<open>The pointer effect\<close>

text \<open>
  Claim C9. A pointer move over a card publishes, as \<open>--x\<close> and \<open>--y\<close>, the pointer's position
  relative to the card's top-left corner in pixels: (50px, 30px) for a pointer at (50, 30).
\<close>

theorem mousemove_publishes:
  "styles (mousemove el e rect st) el ''--x'' = Some (NumUnit (clientX e - rect_left rect) ''px'') \<and>
   styles (mousemove el e rect st) el ''--y'' = Some (NumUnit (clientY e - rect_top rect) ''px'') \<and>
   (clientX e - rect_left rect = 50 \<and> clientY e - rect_top rect = 30 \<longrightarrow>
      styles (mousemove el e rect st) el ''--x'' = Some (NumUnit 50 ''px'') \<and>
      styles (mousemove el e rect st) el ''--y'' = Some (NumUnit 30 ''px'')) \<and>
   (el \<in> set (mousemove_listeners st) \<longrightarrow>
      step (MouseMove el e rect) st = Inr (mousemove el e rect st))"
  by (simp add: mousemove_def Let_def step_def)

theorem mousemove_publishes_witness:
  "clientX \<lparr>clientX = 150, clientY = 130\<rparr> - rect_left \<lparr>rect_left = 100, rect_top = 100\<rparr> = 50 \<and>
   clientY \<lparr>clientX = 150, clientY = 130\<rparr> - rect_top \<lparr>rect_left = 100, rect_top = 100\<rparr> = 30 \<and>
   3 \<in> set (mousemove_listeners (projr (script example_window example_document 0))) \<and>
   step (MouseMove 3 \<lparr>clientX = 150, clientY = 130\<rparr> \<lparr>rect_left = 100, rect_top = 100\<rparr>)
        (projr (script example_window example_document 0)) =
     Inr (mousemove 3 \<lparr>clientX = 150, clientY = 130\<rparr> \<lparr>rect_left = 100, rect_top = 100\<rparr>
        (projr (script example_window example_document 0))) \<and>
   styles (mousemove 3 \<lparr>clientX = 150, clientY = 130\<rparr> \<lparr>rect_left = 100, rect_top = 100\<rparr>
        (projr (script example_window example_document 0))) 3 ''--x'' = Some (NumUnit 50 ''px'') \<and>
   styles (mousemove 3 \<lparr>clientX = 150, clientY = 130\<rparr> \<lparr>rect_left = 100, rect_top = 100\<rparr>
        (projr (script example_window example_document 0))) 3 ''--y'' = Some (NumUnit 30 ''px'')"
proof -
  have l: "mousemove_listeners (projr (script example_window example_document 0)) = [3, 4]"
    by (simp add: script_value matchMedia_def example_document_def)
  show ?thesis
    using mousemove_publishes [of 3 "\<lparr>clientX = 150, clientY = 130\<rparr>" "\<lparr>rect_left = 100, rect_top = 100\<rparr>"
        "projr (script example_window example_document 0)"] l
    by simp
qed

end
